theory Spec2Isabelle
  imports Complex_Main "HOL-Library.Word" "HOL-Library.Sublist"
begin

section \<open>Strings and numbers of the host language\<close>

text \<open>
  A JavaScript string is modelled as a \<^typ>\<open>string\<close>, one \<^typ>\<open>char\<close> per code unit,
  for the strings whose code units are below \<open>0x100\<close>.
  All the string operations of the validation code work code unit by code unit
  (\<open>replace\<close> with a regular expression without the \<open>u\<close> flag, \<open>substring\<close>, \<open>length\<close>),
  so a code unit outside the ASCII range behaves like any other unit that is not listed
  in a character class.
\<close>

definition ascii_lower :: string where
  "ascii_lower = ''abcdefghijklmnopqrstuvwxyz''"

definition ascii_upper :: string where
  "ascii_upper = ''ABCDEFGHIJKLMNOPQRSTUVWXYZ''"

definition ascii_digits :: string where
  "ascii_digits = ''0123456789''"

text \<open>
  The cased letters among the code units \<open>0x80\<close> to \<open>0xFF\<close>: the capitals \<open>0xC0\<close> to \<open>0xDE\<close>
  without the multiplication sign \<open>0xD7\<close>, and the small letters \<open>0x20\<close> above them
  (\<open>0xE0\<close> to \<open>0xFE\<close> without the division sign \<open>0xF7\<close>). The units \<open>0xB5\<close>, \<open>0xDF\<close> and
  \<open>0xFF\<close> are small letters with no capital among the code units below \<open>0x100\<close>.
\<close>

definition latin1_upper :: string where
  "latin1_upper =
     [CHR 0xC0, CHR 0xC1, CHR 0xC2, CHR 0xC3, CHR 0xC4, CHR 0xC5, CHR 0xC6, CHR 0xC7,
      CHR 0xC8, CHR 0xC9, CHR 0xCA, CHR 0xCB, CHR 0xCC, CHR 0xCD, CHR 0xCE, CHR 0xCF,
      CHR 0xD0, CHR 0xD1, CHR 0xD2, CHR 0xD3, CHR 0xD4, CHR 0xD5, CHR 0xD6, CHR 0xD8,
      CHR 0xD9, CHR 0xDA, CHR 0xDB, CHR 0xDC, CHR 0xDD, CHR 0xDE]"

definition latin1_lower :: string where
  "latin1_lower =
     [CHR 0xE0, CHR 0xE1, CHR 0xE2, CHR 0xE3, CHR 0xE4, CHR 0xE5, CHR 0xE6, CHR 0xE7,
      CHR 0xE8, CHR 0xE9, CHR 0xEA, CHR 0xEB, CHR 0xEC, CHR 0xED, CHR 0xEE, CHR 0xEF,
      CHR 0xF0, CHR 0xF1, CHR 0xF2, CHR 0xF3, CHR 0xF4, CHR 0xF5, CHR 0xF6, CHR 0xF8,
      CHR 0xF9, CHR 0xFA, CHR 0xFB, CHR 0xFC, CHR 0xFD, CHR 0xFE]"

text \<open>
  \<open>String.prototype.toLowerCase\<close> on the code units below \<open>0x100\<close>: the capitals \<open>A\<close> to \<open>Z\<close>
  and those of \<open>latin1_upper\<close> go to their small letters, every other unit stays.
\<close>

definition toLowerCase_char :: "char \<Rightarrow> char" where
  "toLowerCase_char c =
     (case map_of (zip (ascii_upper @ latin1_upper) (ascii_lower @ latin1_lower)) c of
        Some l \<Rightarrow> l
      | None \<Rightarrow> c)"

definition toLowerCase :: "string \<Rightarrow> string" where
  "toLowerCase s = map toLowerCase_char s"

text \<open>
  The canonicalisation that the \<open>i\<close> flag of a regular expression applies to a code unit
  before it is compared with a pattern character. The patterns of this code that carry
  the flag are made of ASCII characters, and a unit from \<open>0x80\<close> on never canonicalises to an
  ASCII one, so only \<open>a\<close> to \<open>z\<close> are folded.
\<close>

definition toUpperCase_char :: "char \<Rightarrow> char" where
  "toUpperCase_char c = (case map_of (zip ascii_lower ascii_upper) c of Some u \<Rightarrow> u | None \<Rightarrow> c)"

text \<open>\<open>Array.prototype.join\<close>.\<close>

fun join :: "string \<Rightarrow> string list \<Rightarrow> string" where
  "join sep [] = []"
| "join sep [x] = x"
| "join sep (x # y # ys) = x @ sep @ join sep (y # ys)"

text \<open>Decimal rendering of a natural number.\<close>

definition digit_char :: "nat \<Rightarrow> char" where
  "digit_char d = ascii_digits ! (d mod 10)"

fun show_nat :: "nat \<Rightarrow> string" where
  "show_nat n = (if n < 10 then [digit_char n] else show_nat (n div 10) @ [digit_char (n mod 10)])"

text \<open>
  \<open>(bytes / (1024 * 1024)).toFixed(d)\<close>. The quotient by \<open>2^20\<close> is exact in a double
  for every size below \<open>2^53\<close>, and \<open>toFixed\<close> rounds the exact value to the nearest
  multiple of \<open>10^-d\<close>, the larger one on a tie.
\<close>

definition pad_left :: "nat \<Rightarrow> string \<Rightarrow> string" where
  "pad_left d s = replicate (d - length s) (CHR ''0'') @ s"

definition megabytes_toFixed :: "nat \<Rightarrow> nat \<Rightarrow> string" where
  "megabytes_toFixed d bytes =
     (let n = (bytes * 10 ^ d * 2 + 1048576) div 2097152
      in if d = 0 then show_nat n
         else show_nat (n div 10 ^ d) @ ''.'' @ pad_left d (show_nat (n mod 10 ^ d)))"

section \<open>File validation (lib/validation.js)\<close>

type_synonym byte = "8 word"

text \<open>
  A \<open>File\<close> of a multipart form: its name, its declared MIME type and its bytes.
  \<open>file.size\<close> is the number of bytes, \<open>file.arrayBuffer()\<close> gives the bytes.
\<close>

record js_file =
  file_name :: string
  file_type :: string
  file_bytes :: "byte list"

definition file_size :: "js_file \<Rightarrow> nat" where
  "file_size f = length (file_bytes f)"

definition arrayBuffer :: "js_file \<Rightarrow> byte list" where
  "arrayBuffer f = file_bytes f"

text \<open>What \<open>formData.get(key)\<close> gives: \<open>null\<close>, a string, or a \<open>File\<close>.\<close>

datatype form_value = Null | Text string | File js_file

text \<open>The object a validation function returns; an absent property is \<open>None\<close>.\<close>

record validation =
  valid :: bool
  error :: "string option"
  sanitizedName :: "string option"
  buffer :: "byte list option"

definition ok :: validation where
  "ok = \<lparr>valid = True, error = None, sanitizedName = None, buffer = None\<rparr>"

definition invalid :: "string \<Rightarrow> validation" where
  "invalid msg = \<lparr>valid = False, error = Some msg, sanitizedName = None, buffer = None\<rparr>"

text \<open>
  The three tables. A category or MIME type is a property name; only the own properties
  of each object literal are modelled, so a lookup of any other name is \<open>undefined\<close>.
\<close>

definition ALLOWED_MIME_TYPES :: "(string \<times> string list) list" where
  "ALLOWED_MIME_TYPES =
     [(''IMAGE'', [''image/jpeg'', ''image/png'', ''image/webp'']),
      (''PDF'', [''application/pdf''])]"

definition FILE_SIZE_LIMITS :: "(string \<times> nat) list" where
  "FILE_SIZE_LIMITS =
     [(''IMAGE'', 5 * 1024 * 1024),
      (''PDF'', 10 * 1024 * 1024)]"

definition FILE_SIGNATURES :: "(string \<times> byte list list) list" where
  "FILE_SIGNATURES =
     [(''image/jpeg'', [[0xFF, 0xD8, 0xFF]]),
      (''image/png'', [[0x89, 0x50, 0x4E, 0x47]]),
      (''image/webp'', [[0x52, 0x49, 0x46, 0x46]]),
      (''application/pdf'', [[0x25, 0x50, 0x44, 0x46]])]"

definition validateMimeType :: "js_file \<Rightarrow> string \<Rightarrow> validation" where
  "validateMimeType f category =
     (case map_of ALLOWED_MIME_TYPES category of
        None \<Rightarrow> invalid ''Invalid category''
      | Some allowedTypes \<Rightarrow>
          if file_type f \<notin> set allowedTypes
          then invalid (''Invalid MIME type. Allowed: '' @ join '', '' allowedTypes)
          else ok)"

definition validateFileSize :: "js_file \<Rightarrow> string \<Rightarrow> validation" where
  "validateFileSize f category =
     (case map_of FILE_SIZE_LIMITS category of
        None \<Rightarrow> invalid ''Invalid category''
      | Some maxSize \<Rightarrow>
          if maxSize = 0 then invalid ''Invalid category''
          else if file_size f = 0 then invalid ''File is empty''
          else if file_size f > maxSize
          then invalid (''File size '' @ megabytes_toFixed 2 (file_size f)
                        @ ''MB exceeds limit of '' @ megabytes_toFixed 0 maxSize @ ''MB'')
          else ok)"

text \<open>\<open>uint8Array[index]\<close>: \<open>undefined\<close> (here \<open>None\<close>) past the end of the buffer.\<close>

definition uint8_at :: "byte list \<Rightarrow> nat \<Rightarrow> byte option" where
  "uint8_at bs i = (if i < length bs then Some (bs ! i) else None)"

definition signature_every :: "byte list \<Rightarrow> byte list \<Rightarrow> bool" where
  "signature_every bs signature =
     list_all (\<lambda>(byte, index). uint8_at bs index = Some byte)
              (zip signature [0 ..< length signature])"

definition validateFileSignature :: "byte list \<Rightarrow> string \<Rightarrow> bool" where
  "validateFileSignature buf mimeType =
     (case map_of FILE_SIGNATURES mimeType of
        None \<Rightarrow> True
      | Some signatures \<Rightarrow> list_ex (signature_every buf) signatures)"

text \<open>\<open>filename.replace(/\.\.\//g, '')\<close>: one pass from the left, matches do not overlap.\<close>

fun strip_traversal :: "string \<Rightarrow> string" where
  "strip_traversal (a # b # c # rest) =
     (if a = CHR ''.'' \<and> b = CHR ''.'' \<and> c = CHR ''/'' then strip_traversal rest
      else a # strip_traversal (b # c # rest))"
| "strip_traversal s = s"

text \<open>The character class \<open>[a-zA-Z0-9._-]\<close>.\<close>

definition safe_char :: "char \<Rightarrow> bool" where
  "safe_char c \<longleftrightarrow> c \<in> set (ascii_lower @ ascii_upper @ ascii_digits @ ''._-'')"

definition replace_unsafe :: "string \<Rightarrow> string" where
  "replace_unsafe s = map (\<lambda>c. if safe_char c then c else CHR ''_'') s"

definition sanitizeFilename :: "string \<Rightarrow> string" where
  "sanitizeFilename filename = take 100 (replace_unsafe (strip_traversal filename))"

text \<open>
  \<open>/^https?:\/\//i\<close>: \<open>match_ci p s\<close> consumes the literal \<open>p\<close> at the start of \<open>s\<close>,
  ignoring case, and gives the rest. The optional \<open>s\<close> is tried first, then skipped.
\<close>

fun match_ci :: "string \<Rightarrow> string \<Rightarrow> string option" where
  "match_ci [] s = Some s"
| "match_ci (p # ps) [] = None"
| "match_ci (p # ps) (c # cs) =
     (if toUpperCase_char p = toUpperCase_char c then match_ci ps cs else None)"

definition urlPattern_test :: "string \<Rightarrow> bool" where
  "urlPattern_test s =
     (case match_ci ''http'' s of
        None \<Rightarrow> False
      | Some r \<Rightarrow>
          (case match_ci ''s'' r of
             Some r' \<Rightarrow> match_ci ''://'' r' \<noteq> None \<or> match_ci ''://'' r \<noteq> None
           | None \<Rightarrow> match_ci ''://'' r \<noteq> None))"

definition containsExternalUrl :: "form_value \<Rightarrow> bool" where
  "containsExternalUrl v = (case v of Text s \<Rightarrow> urlPattern_test s | _ \<Rightarrow> False)"

definition validateFile :: "form_value \<Rightarrow> string \<Rightarrow> validation" where
  "validateFile v category =
     (case v of
        File f \<Rightarrow>
          if containsExternalUrl (Text (file_name f)) then invalid ''External URLs not allowed''
          else if \<not> valid (validateMimeType f category) then validateMimeType f category
          else if \<not> valid (validateFileSize f category) then validateFileSize f category
          else if \<not> validateFileSignature (arrayBuffer f) (file_type f)
          then invalid ''File content does not match declared type''
          else \<lparr>valid = True, error = None,
                sanitizedName = Some (sanitizeFilename (file_name f)),
                buffer = Some (arrayBuffer f)\<rparr>
      | _ \<Rightarrow> invalid ''No valid file provided'')"

section \<open>File validation, first version (lib/fileValidation.js)\<close>

record file_config =
  allowedTypes :: "string list"
  allowedExtensions :: "string list"
  maxSize :: nat
  label :: string

definition FILE_CONFIG :: "(string \<times> file_config) list" where
  "FILE_CONFIG =
     [(''image'',
       \<lparr>allowedTypes = [''image/jpeg'', ''image/jpg'', ''image/png'', ''image/webp''],
        allowedExtensions = [''.jpg'', ''.jpeg'', ''.png'', ''.webp''],
        maxSize = 5 * 1024 * 1024,
        label = ''Image''\<rparr>),
      (''pdf'',
       \<lparr>allowedTypes = [''application/pdf''],
        allowedExtensions = [''.pdf''],
        maxSize = 10 * 1024 * 1024,
        label = ''PDF Document''\<rparr>)]"

text \<open>\<open>String.prototype.endsWith\<close>.\<close>

definition endsWith :: "string \<Rightarrow> string \<Rightarrow> bool" where
  "endsWith s ext \<longleftrightarrow> length ext \<le> length s \<and> drop (length s - length ext) s = ext"

definition validateFileType :: "js_file \<Rightarrow> string \<Rightarrow> validation" where
  "validateFileType f category =
     (case map_of FILE_CONFIG category of
        None \<Rightarrow> invalid (''Invalid file category: '' @ category)
      | Some config \<Rightarrow>
          if file_type f \<notin> set (allowedTypes config)
          then invalid (''Invalid file type. Please upload '' @ label config
                        @ '' files only. Allowed formats: ''
                        @ join '', '' (allowedExtensions config))
          else let fileName = toLowerCase (file_name f);
                   hasValidExtension = list_ex (\<lambda>ext. endsWith fileName ext) (allowedExtensions config)
               in if \<not> hasValidExtension
                  then invalid (''Invalid file extension. Allowed extensions: ''
                                @ join '', '' (allowedExtensions config))
                  else ok)"

text \<open>
  \<open>String.prototype.lastIndexOf\<close> (\<open>-1\<close> when the character does not occur) and
  \<open>String.prototype.substring\<close>, which clamps both arguments to \<open>0 .. length\<close> and swaps
  them when the first is the larger; an omitted end is the length.
\<close>

definition lastIndexOf :: "string \<Rightarrow> char \<Rightarrow> int" where
  "lastIndexOf s c =
     (case filter (\<lambda>i. s ! i = c) (rev [0 ..< length s]) of
        [] \<Rightarrow> - 1
      | i # _ \<Rightarrow> int i)"

definition clamp_index :: "string \<Rightarrow> int \<Rightarrow> nat" where
  "clamp_index s i = (if i < 0 then 0 else min (nat i) (length s))"

definition substring :: "string \<Rightarrow> int \<Rightarrow> int option \<Rightarrow> string" where
  "substring s start end =
     (let a = clamp_index s start;
          b = (case end of None \<Rightarrow> length s | Some e \<Rightarrow> clamp_index s e);
          from = min a b;
          to = max a b
      in take (to - from) (drop from s))"

definition sanitizeFileName :: "string \<Rightarrow> string" where
  "sanitizeFileName fileName =
     (let sanitized = replace_unsafe (strip_traversal fileName)
      in if length sanitized > 100
         then let ext = substring sanitized (lastIndexOf sanitized (CHR ''.'')) None
              in substring sanitized 0 (Some (100 - int (length ext))) @ ext
         else sanitized)"

section \<open>Errors, the connection cache and connectDB (lib/mongodb.js)\<close>

text \<open>
  An exception value: the properties of an \<open>Error\<close> that the handlers read. \<open>err_errors\<close>
  holds the messages of \<open>error.errors\<close>, which a Mongoose \<open>ValidationError\<close> carries.
\<close>

datatype error_code = CodeNum int | CodeStr string

record js_error =
  err_name :: string
  err_message :: string
  err_code :: "error_code option"
  err_codeName :: "string option"
  err_errors :: "string list"

definition Error :: "string \<Rightarrow> js_error" where
  "Error msg = \<lparr>err_name = ''Error'', err_message = msg, err_code = None,
                 err_codeName = None, err_errors = []\<rparr>"

text \<open>The connected Mongoose instance, tagged with the attempt that produced it.\<close>

datatype connection = Connection nat

text \<open>
  \<open>cached = { conn, promise }\<close>. Calls of \<open>connectDB\<close> are modelled one at a time, each run
  to its end, so a promise is represented by the value it settles to.
\<close>

record cache =
  conn :: "connection option"
  promise :: "(js_error + connection) option"

text \<open>
  A stored application document: the properties of it that the handlers read after
  \<open>save\<close> or \<open>findOne\<close>.
\<close>

record application =
  app_id :: string
  app_fullName :: string
  app_emailAddress :: string
  app_roleAppliedFor :: string
  app_submittedAt :: string

text \<open>The values of \<open>parseInt\<close> and \<open>parseFloat\<close>.\<close>

datatype js_number = NaN | PosInfinity | NegInfinity | Finite rat

text \<open>The object handed to \<open>FileUpload.create\<close> for one file.\<close>

record file_upload_data =
  cloudinaryUrl :: string
  cloudinaryPublicId :: string
  originalFileName :: string
  sanitizedFileName :: "string option"
  fileType :: string
  fileCategory :: string
  fileSize :: nat
  uploadedBy :: form_value
  uploadPurpose :: string
  relatedEntityId :: string
  relatedEntityType :: string
  uploadSource :: string
  uploadIPAddress :: string
  userAgent :: string

text \<open>
  The process state: the connection cache, the number of \<open>mongoose.connect\<close> calls made so
  far, and the two collections.
\<close>

record world =
  cached :: cache
  connectAttempts :: nat
  applications :: "application list"
  fileUploads :: "file_upload_data list"

text \<open>The object handed to \<open>new Application\<close>.\<close>

record application_data =
  fullName :: form_value
  age :: js_number
  gender :: form_value
  mobileNumber :: form_value
  emailAddress :: form_value
  city :: form_value
  state :: form_value
  highestQualification :: form_value
  specialization :: form_value
  collegeName :: form_value
  yearOfPassing :: js_number
  careerGap :: js_number
  roleAppliedFor :: form_value
  primarySkillSet :: form_value
  totalExperience :: form_value
  linkedinUrl :: form_value
  githubUrl :: form_value
  photographUrl :: string
  resumeUrl :: string
  availability :: form_value
  declarationAccepted :: bool

text \<open>What \<open>cloudinary.uploader.upload\<close> is called with and what it resolves to.\<close>

datatype data_uri = DataUri string "byte list"

record upload_options =
  folder :: string
  resource_type :: string
  allowed_formats :: "string list"

record cloudinary_result =
  secure_url :: string
  public_id :: string

record process_env =
  NODE_ENV :: "string option"
  NEXT_PUBLIC_APP_URL :: "string option"
  CLOUDINARY_FOLDER_PREFIX :: "string option"

text \<open>
  Everything outside the repository that a handler calls: the environment variables,
  \<open>new URL(x).origin\<close>, \<open>parseInt\<close> and \<open>parseFloat\<close>, the clock, the \<open>TypeError\<close> of a
  property read on \<open>undefined\<close>, the outcome of the n-th \<open>mongoose.connect\<close>, the Cloudinary
  uploader, and the three Mongoose operations on the collections. An \<open>Inl\<close> is a throw
  (a rejected promise).
\<close>

record env =
  process_env :: process_env
  url_origin :: "string \<Rightarrow> js_error + string"
  parseInt :: "form_value \<Rightarrow> js_number"
  parseFloat :: "form_value \<Rightarrow> js_number"
  now :: string
  type_error :: "string \<Rightarrow> js_error"
  mongoose_connect :: "nat \<Rightarrow> js_error + connection"
  uploader_upload :: "data_uri \<Rightarrow> upload_options \<Rightarrow> js_error + cloudinary_result"
  findOne :: "application list \<Rightarrow> form_value \<Rightarrow> js_error + application option"
  save :: "application list \<Rightarrow> application_data \<Rightarrow> js_error + application"
  create :: "file_upload_data list \<Rightarrow> file_upload_data list
             \<Rightarrow> js_error option \<times> file_upload_data list"

text \<open>
  \<open>connectDB\<close>. The fast path returns the cached connection. Otherwise, unless a promise is
  cached, \<open>mongoose.connect\<close> is called and its promise cached; the promise is awaited; on
  success the connection is cached, on failure both fields are cleared and the error is
  thrown again. (The \<open>.catch\<close> handler of the promise has already cleared
  \<open>cached.promise\<close> at that point.)
\<close>

definition connectDB :: "env \<Rightarrow> world \<Rightarrow> (js_error + connection) \<times> world" where
  "connectDB e w =
     (case conn (cached w) of
        Some c \<Rightarrow> (Inr c, w)
      | None \<Rightarrow>
          let (p, w1) =
                (case promise (cached w) of
                   None \<Rightarrow>
                     let p = mongoose_connect e (connectAttempts w)
                     in (p, w\<lparr>connectAttempts := connectAttempts w + 1,
                              cached := (cached w)\<lparr>promise := Some p\<rparr>\<rparr>)
                 | Some p \<Rightarrow> (p, w))
          in (case p of
                Inr c \<Rightarrow> (Inr c, w1\<lparr>cached := (cached w1)\<lparr>conn := Some c\<rparr>\<rparr>)
              | Inl err \<Rightarrow>
                  (Inl err, w1\<lparr>cached := (cached w1)\<lparr>promise := None, conn := None\<rparr>\<rparr>)))"

text \<open>\<open>String.prototype.includes\<close>.\<close>

definition str_includes :: "string \<Rightarrow> string \<Rightarrow> bool" where
  "str_includes s part \<longleftrightarrow> sublist part s"

record classification =
  cls_category :: string
  cls_errorCode :: string
  cls_httpStatus :: nat
  cls_message :: string
  cls_hint :: string

definition classifyDatabaseError :: "js_error \<Rightarrow> classification" where
  "classifyDatabaseError err =
     (let errorMessage = toLowerCase (err_message err);
          errorCode = err_code err;
          codeName = (case err_codeName err of None \<Rightarrow> [] | Some n \<Rightarrow> toLowerCase n)
      in if errorCode = Some (CodeNum 8000)
            \<or> str_includes codeName ''atlasauthenticationerror''
            \<or> str_includes errorMessage ''bad auth''
            \<or> str_includes errorMessage ''authentication failed''
            \<or> str_includes errorMessage ''unauthorized''
         then \<lparr>cls_category = ''AUTHENTICATION'', cls_errorCode = ''AUTH_FAILED'', cls_httpStatus = 401,
               cls_message = ''MongoDB authentication failed. Invalid username or password.'',
               cls_hint = ''Check MongoDB Atlas Database Access credentials''\<rparr>
         else if str_includes errorMessage ''econnrefused''
            \<or> str_includes errorMessage ''enotfound''
            \<or> str_includes errorMessage ''network''
            \<or> str_includes errorMessage ''ip whitelist''
            \<or> errorCode = Some (CodeStr ''ECONNREFUSED'')
            \<or> errorCode = Some (CodeStr ''ENOTFOUND'')
         then \<lparr>cls_category = ''NETWORK'', cls_errorCode = ''NETWORK_ERROR'', cls_httpStatus = 503,
               cls_message = ''Cannot connect to MongoDB server. Check network and firewall.'',
               cls_hint = ''Verify MongoDB Atlas cluster is running and IP whitelist includes your location''\<rparr>
         else if str_includes errorMessage ''timeout''
            \<or> str_includes errorMessage ''timed out''
            \<or> errorCode = Some (CodeStr ''ETIMEDOUT'')
         then \<lparr>cls_category = ''TIMEOUT'', cls_errorCode = ''CONNECTION_TIMEOUT'', cls_httpStatus = 504,
               cls_message = ''MongoDB connection timed out.'',
               cls_hint = ''Check MongoDB Atlas cluster status and network connectivity''\<rparr>
         else if str_includes errorMessage ''duplicate''
            \<or> str_includes errorMessage ''validation''
            \<or> errorCode = Some (CodeNum 11000)
            \<or> err_name err = ''ValidationError''
         then \<lparr>cls_category = ''VALIDATION'', cls_errorCode = ''VALIDATION_ERROR'', cls_httpStatus = 400,
               cls_message = ''Data validation failed.'',
               cls_hint = ''Check that all required fields are valid and no duplicate emails exist''\<rparr>
         else \<lparr>cls_category = ''UNKNOWN'', cls_errorCode = ''UNKNOWN_ERROR'', cls_httpStatus = 500,
               cls_message = ''Database operation failed.'',
               cls_hint = ''Check server logs for details''\<rparr>)"

definition getErrorType :: "string \<Rightarrow> string" where
  "getErrorType cat =
     (case map_of [(''AUTHENTICATION'', ''DATABASE_AUTH''),
                   (''NETWORK'', ''DATABASE_CONNECTION''),
                   (''TIMEOUT'', ''DATABASE_CONNECTION''),
                   (''VALIDATION'', ''DATABASE_WRITE''),
                   (''UNKNOWN'', ''DATABASE_WRITE'')] cat of
        Some t \<Rightarrow> t
      | None \<Rightarrow> ''DATABASE_WRITE'')"

definition getHttpStatus :: "js_error \<Rightarrow> nat" where
  "getHttpStatus err =
     (if cls_httpStatus (classifyDatabaseError err) = 0 then 500
      else cls_httpStatus (classifyDatabaseError err))"

section \<open>Requests and responses\<close>

text \<open>
  The body of a \<open>NextResponse.json\<close>; a property whose value is \<open>undefined\<close> is not
  serialised and does not appear.
\<close>

datatype json = JNull | JBool bool | JNumber int | JString string | JObject "(string \<times> json) list"

record response =
  status :: nat
  body :: json

definition json_get :: "json \<Rightarrow> string \<Rightarrow> json option" where
  "json_get j key = (case j of JObject props \<Rightarrow> map_of props key | _ \<Rightarrow> None)"

text \<open>
  A request: its headers by lower-case name, and what \<open>request.formData()\<close> gives, the
  entries in order or the error it throws.
\<close>

record request =
  headers :: "(string \<times> string) list"
  formData :: "js_error + (string \<times> form_value) list"

definition headers_get :: "request \<Rightarrow> string \<Rightarrow> string option" where
  "headers_get req name = map_of (headers req) name"

definition formData_get :: "(string \<times> form_value) list \<Rightarrow> string \<Rightarrow> form_value" where
  "formData_get fd key = (case map_of fd key of None \<Rightarrow> Null | Some v \<Rightarrow> v)"

text \<open>Truthiness of a string that may be \<open>null\<close>, and of a form value.\<close>

definition truthy :: "string option \<Rightarrow> bool" where
  "truthy v = (case v of None \<Rightarrow> False | Some s \<Rightarrow> s \<noteq> [])"

definition truthy_value :: "form_value \<Rightarrow> bool" where
  "truthy_value v = (case v of Null \<Rightarrow> False | Text s \<Rightarrow> s \<noteq> [] | File f \<Rightarrow> True)"

text \<open>\<open>x || ''\<close> on a form value, \<open>x || d\<close> on a string, \<open>parseFloat(x) || 0\<close>.\<close>

definition or_empty :: "form_value \<Rightarrow> form_value" where
  "or_empty v = (if truthy_value v then v else Text [])"

definition or_default :: "string option \<Rightarrow> string \<Rightarrow> string" where
  "or_default v d = (case v of None \<Rightarrow> d | Some s \<Rightarrow> if s = [] then d else s)"

definition or_zero :: "js_number \<Rightarrow> js_number" where
  "or_zero n = (if n = NaN \<or> n = Finite 0 then Finite 0 else n)"

text \<open>
  Where a handler stands after a step: it goes on with a value, it has returned a response,
  or an exception is on its way to the enclosing \<open>catch\<close>.
\<close>

datatype 'a step = Next 'a | Return response | Throw js_error

section \<open>The storage client (lib/cloudinary.js)\<close>

text \<open>
  What \<open>uploadToCloudinary\<close> returns: \<open>{ success: true, url, publicId }\<close> or
  \<open>{ success: false, error }\<close>.
\<close>

datatype upload_result =
    UploadOk (url: string) (publicId: string)
  | UploadFailed (upload_error: string)

definition uploadToCloudinary :: "env \<Rightarrow> data_uri \<Rightarrow> string \<Rightarrow> string \<Rightarrow> upload_result" where
  "uploadToCloudinary e file fld resourceType =
     (case uploader_upload e file
             \<lparr>folder = fld, resource_type = resourceType,
              allowed_formats = (if resourceType = ''image''
                                 then [''jpg'', ''jpeg'', ''png'', ''webp''] else [''pdf''])\<rparr> of
        Inr result \<Rightarrow> UploadOk (secure_url result) (public_id result)
      | Inl err \<Rightarrow> UploadFailed (err_message err))"

text \<open>The data URI built from a file: \<open>data:<type>;base64,<bytes>\<close>.\<close>

definition base64_uri :: "string \<Rightarrow> byte list \<Rightarrow> data_uri" where
  "base64_uri mime bytes = DataUri mime bytes"

section \<open>Error responses of the second pipeline (lib/errorHandler.js)\<close>

definition ErrorMessages :: "(string \<times> string) list" where
  "ErrorMessages =
     [(''INVALID_REQUEST'', ''Invalid request format''),
      (''MISSING_FILES'', ''Required files are missing''),
      (''INVALID_FILE_TYPE'', ''Invalid file type''),
      (''FILE_SIZE_EXCEEDED'', ''File size exceeds limit''),
      (''INVALID_MIME_TYPE'', ''Invalid MIME type''),
      (''VALIDATION_FAILED'', ''Validation failed''),
      (''ORIGIN_BLOCKED'', ''Unauthorized origin''),
      (''UNAUTHORIZED'', ''Unauthorized request''),
      (''CLOUDINARY_UPLOAD_FAILED'', ''File upload failed''),
      (''DATABASE_ERROR'', ''Database operation failed''),
      (''INTERNAL_ERROR'', ''Internal server error'')]"

definition ErrorStatusCodes :: "(string \<times> nat) list" where
  "ErrorStatusCodes =
     [(''INVALID_REQUEST'', 400),
      (''MISSING_FILES'', 400),
      (''INVALID_FILE_TYPE'', 400),
      (''FILE_SIZE_EXCEEDED'', 413),
      (''INVALID_MIME_TYPE'', 400),
      (''VALIDATION_FAILED'', 400),
      (''ORIGIN_BLOCKED'', 401),
      (''UNAUTHORIZED'', 401),
      (''CLOUDINARY_UPLOAD_FAILED'', 500),
      (''DATABASE_ERROR'', 500),
      (''INTERNAL_ERROR'', 500)]"

definition createErrorResponse :: "string \<Rightarrow> string option \<Rightarrow> json option \<Rightarrow> response" where
  "createErrorResponse code msg details =
     (let statusCode = (case map_of ErrorStatusCodes code of
                          None \<Rightarrow> 500 | Some n \<Rightarrow> if n = 0 then 500 else n);
          defaultMessage = or_default (map_of ErrorMessages code) ''An error occurred''
      in \<lparr>status = statusCode,
          body = JObject ([(''success'', JBool False),
                           (''error'', JString code),
                           (''message'', JString (or_default msg defaultMessage))]
                          @ (case details of None \<Rightarrow> [] | Some d \<Rightarrow> [(''details'', d)]))\<rparr>)"

definition createSuccessResponse :: "json \<Rightarrow> nat \<Rightarrow> response" where
  "createSuccessResponse data statusCode =
     \<lparr>status = statusCode, body = JObject [(''success'', JBool True), (''data'', data)]\<rparr>"

section \<open>Error responses of the first pipeline (lib/mongodb.js)\<close>

definition createErrorResponse_db :: "env \<Rightarrow> js_error \<Rightarrow> string \<Rightarrow> json" where
  "createErrorResponse_db e err location =
     (let classification = classifyDatabaseError err
      in JObject [(''success'', JBool False),
                  (''errorType'', JString (getErrorType (cls_category classification))),
                  (''message'', JString (cls_message classification)),
                  (''location'', JString location),
                  (''hint'', JString (cls_hint classification)),
                  (''timestamp'', JString (now e))])"

section \<open>Request guards (lib/validation.js)\<close>

definition validateContentType :: "request \<Rightarrow> validation" where
  "validateContentType req =
     (let contentType = or_default (headers_get req ''content-type'') []
      in if \<not> str_includes contentType ''multipart/form-data''
         then invalid ''Content-Type must be multipart/form-data''
         else ok)"

definition validateOrigin :: "env \<Rightarrow> request \<Rightarrow> js_error + validation" where
  "validateOrigin e req =
     (let origin = headers_get req ''origin'';
          referer = headers_get req ''referer'';
          appUrl = NEXT_PUBLIC_APP_URL (process_env e)
      in if \<not> truthy appUrl then Inl (Error ''NEXT_PUBLIC_APP_URL not configured'')
         else if NODE_ENV (process_env e) = Some ''production''
         then if \<not> truthy origin \<and> \<not> truthy referer
              then Inr (invalid ''Missing origin and referer headers'')
              else (case (if truthy origin then Inr (or_default origin [])
                          else url_origin e (or_default referer [])) of
                      Inl err \<Rightarrow> Inl err
                    | Inr requestOrigin \<Rightarrow>
                        (case url_origin e (or_default appUrl []) of
                           Inl err \<Rightarrow> Inl err
                         | Inr allowedOrigin \<Rightarrow>
                             if requestOrigin \<noteq> allowedOrigin
                             then Inr (invalid ''Unauthorized origin'')
                             else Inr ok))
         else Inr ok)"

fun validateFormData :: "(string \<times> form_value) list \<Rightarrow> validation" where
  "validateFormData [] = ok"
| "validateFormData ((key, v) # entries) =
     (if containsExternalUrl v \<and> key \<notin> set [''linkedinUrl'', ''githubUrl'', ''portfolioUrl'']
      then invalid (''Field \"'' @ key @ ''\" contains unauthorized URL'')
      else validateFormData entries)"

section \<open>The application data built from the form\<close>

text \<open>The object literal \<open>applicationData\<close>, the same in both pipelines.\<close>

definition applicationData_of ::
  "env \<Rightarrow> (string \<times> form_value) list \<Rightarrow> string \<Rightarrow> string \<Rightarrow> application_data" where
  "applicationData_of e fd photoUrl resumeUrl' =
     \<lparr>fullName = formData_get fd ''fullName'',
      age = parseInt e (formData_get fd ''age''),
      gender = or_empty (formData_get fd ''gender''),
      mobileNumber = formData_get fd ''mobileNumber'',
      emailAddress = formData_get fd ''emailAddress'',
      city = formData_get fd ''city'',
      state = formData_get fd ''state'',
      highestQualification = formData_get fd ''highestQualification'',
      specialization = formData_get fd ''specialization'',
      collegeName = formData_get fd ''collegeName'',
      yearOfPassing = parseInt e (formData_get fd ''yearOfPassing''),
      careerGap = or_zero (parseFloat e (formData_get fd ''careerGap'')),
      roleAppliedFor = formData_get fd ''roleAppliedFor'',
      primarySkillSet = formData_get fd ''primarySkillSet'',
      totalExperience = formData_get fd ''totalExperience'',
      linkedinUrl = or_empty (formData_get fd ''linkedinUrl''),
      githubUrl = or_empty (formData_get fd ''githubUrl''),
      photographUrl = photoUrl,
      resumeUrl = resumeUrl',
      availability = formData_get fd ''availability'',
      declarationAccepted = (formData_get fd ''declarationAccepted'' = Text ''true'')\<rparr>"

section \<open>The second pipeline (app/api/applications-v2/route.js)\<close>

text \<open>Steps 1 and 2: content type and origin.\<close>

definition v2_guards :: "env \<Rightarrow> request \<Rightarrow> unit step" where
  "v2_guards e req =
     (let contentTypeValidation = validateContentType req
      in if \<not> valid contentTypeValidation
         then Return (createErrorResponse ''INVALID_REQUEST'' (error contentTypeValidation) None)
         else (case validateOrigin e req of
                 Inl err \<Rightarrow> Throw err
               | Inr originValidation \<Rightarrow>
                   if \<not> valid originValidation
                   then Return (createErrorResponse ''ORIGIN_BLOCKED'' (error originValidation) None)
                   else Next ()))"

text \<open>
  Steps 5 to 8: the form must carry no external URL, both files must be present, and
  each must pass \<open>validateFile\<close>. Both values are \<open>File\<close>s once \<open>validateFile\<close> has
  accepted them; reading the buffer of anything else would throw.
\<close>

definition v2_files ::
  "env \<Rightarrow> (string \<times> form_value) list \<Rightarrow> (js_file \<times> validation \<times> js_file \<times> validation) step" where
  "v2_files e fd =
     (let formDataValidation = validateFormData fd
      in if \<not> valid formDataValidation
         then Return (createErrorResponse ''INVALID_REQUEST'' (error formDataValidation) None)
         else let photograph = formData_get fd ''photograph'';
                  resume = formData_get fd ''resume''
              in if \<not> truthy_value photograph \<or> \<not> truthy_value resume
                 then Return (createErrorResponse ''MISSING_FILES''
                                (Some ''Both photograph and resume are required'') None)
                 else let photoValidation = validateFile photograph ''IMAGE''
                      in if \<not> valid photoValidation
                         then Return (createErrorResponse ''INVALID_FILE_TYPE'' (error photoValidation)
                                        (Some (JObject [(''field'', JString ''photograph'')])))
                         else let resumeValidation = validateFile resume ''PDF''
                              in if \<not> valid resumeValidation
                                 then Return (createErrorResponse ''INVALID_FILE_TYPE''
                                                (error resumeValidation)
                                                (Some (JObject [(''field'', JString ''resume'')])))
                                 else (case (photograph, resume) of
                                         (File p, File r) \<Rightarrow>
                                           Next (p, photoValidation, r, resumeValidation)
                                       | _ \<Rightarrow> Throw (type_error e ''type'')))"

text \<open>Step 9: the two uploads, the photograph first.\<close>

definition v2_uploads ::
  "env \<Rightarrow> js_file \<Rightarrow> validation \<Rightarrow> js_file \<Rightarrow> validation
   \<Rightarrow> ((string \<times> string) \<times> (string \<times> string)) step" where
  "v2_uploads e p photoValidation r resumeValidation =
     (let folderPrefix = or_default (CLOUDINARY_FOLDER_PREFIX (process_env e)) ''uploads''
      in case buffer photoValidation of
           None \<Rightarrow> Throw (type_error e ''buffer'')
         | Some photoBuffer \<Rightarrow>
             (case uploadToCloudinary e (base64_uri (file_type p) photoBuffer)
                     (folderPrefix @ ''/applications/photographs'') ''image'' of
                UploadFailed m \<Rightarrow>
                  Return (createErrorResponse ''CLOUDINARY_UPLOAD_FAILED''
                            (Some ''Failed to upload photograph'')
                            (Some (JObject [(''cloudinaryError'', JString m)])))
              | UploadOk photoUrl photoId \<Rightarrow>
                  (case buffer resumeValidation of
                     None \<Rightarrow> Throw (type_error e ''buffer'')
                   | Some resumeBuffer \<Rightarrow>
                       (case uploadToCloudinary e (base64_uri (file_type r) resumeBuffer)
                               (folderPrefix @ ''/applications/resumes'') ''raw'' of
                          UploadFailed m \<Rightarrow>
                            Return (createErrorResponse ''CLOUDINARY_UPLOAD_FAILED''
                                      (Some ''Failed to upload resume'')
                                      (Some (JObject [(''cloudinaryError'', JString m)])))
                        | UploadOk resumeUrl' resumeId \<Rightarrow>
                            Next ((photoUrl, photoId), (resumeUrl', resumeId))))))"

text \<open>The values the persistence steps work with.\<close>

record v2_context =
  ctx_formData :: "(string \<times> form_value) list"
  ctx_photograph :: js_file
  ctx_photoValidation :: validation
  ctx_resume :: js_file
  ctx_resumeValidation :: validation
  ctx_photographUpload :: "string \<times> string"
  ctx_resumeUpload :: "string \<times> string"

text \<open>Steps 1 to 9 in order; step 3 is \<open>connectDB\<close>, step 4 parses the form.\<close>

definition v2_intake :: "env \<Rightarrow> world \<Rightarrow> request \<Rightarrow> v2_context step \<times> world" where
  "v2_intake e w req =
     (case v2_guards e req of
        Return resp \<Rightarrow> (Return resp, w)
      | Throw err \<Rightarrow> (Throw err, w)
      | Next u \<Rightarrow>
          (case connectDB e w of
             (Inl err, w1) \<Rightarrow> (Throw err, w1)
           | (Inr c, w1) \<Rightarrow>
               (case formData req of
                  Inl err \<Rightarrow> (Throw err, w1)
                | Inr fd \<Rightarrow>
                    (case v2_files e fd of
                       Return resp \<Rightarrow> (Return resp, w1)
                     | Throw err \<Rightarrow> (Throw err, w1)
                     | Next (p, photoValidation, r, resumeValidation) \<Rightarrow>
                         (case v2_uploads e p photoValidation r resumeValidation of
                            Return resp \<Rightarrow> (Return resp, w1)
                          | Throw err \<Rightarrow> (Throw err, w1)
                          | Next (photographUpload, resumeUpload) \<Rightarrow>
                              (Next \<lparr>ctx_formData = fd, ctx_photograph = p,
                                     ctx_photoValidation = photoValidation, ctx_resume = r,
                                     ctx_resumeValidation = resumeValidation,
                                     ctx_photographUpload = photographUpload,
                                     ctx_resumeUpload = resumeUpload\<rparr>, w1))))))"

text \<open>The two records handed to \<open>FileUpload.create\<close>.\<close>

definition v2_file_records ::
  "request \<Rightarrow> v2_context \<Rightarrow> application \<Rightarrow> file_upload_data list" where
  "v2_file_records req ctx app =
     (let emailAddress' = formData_get (ctx_formData ctx) ''emailAddress'';
          userAgent' = or_default (headers_get req ''user-agent'') ''unknown'';
          ipAddress = or_default (map_option (takeWhile (\<lambda>c. c \<noteq> CHR '',''))
                                    (headers_get req ''x-forwarded-for''))
                        (or_default (headers_get req ''x-real-ip'') ''unknown'')
      in [\<lparr>cloudinaryUrl = fst (ctx_photographUpload ctx),
           cloudinaryPublicId = snd (ctx_photographUpload ctx),
           originalFileName = file_name (ctx_photograph ctx),
           sanitizedFileName = sanitizedName (ctx_photoValidation ctx),
           fileType = file_type (ctx_photograph ctx),
           fileCategory = ''image'',
           fileSize = file_size (ctx_photograph ctx),
           uploadedBy = emailAddress',
           uploadPurpose = ''application_photograph'',
           relatedEntityId = app_id app,
           relatedEntityType = ''Application'',
           uploadSource = ''web'',
           uploadIPAddress = ipAddress,
           userAgent = userAgent'\<rparr>,
          \<lparr>cloudinaryUrl = fst (ctx_resumeUpload ctx),
           cloudinaryPublicId = snd (ctx_resumeUpload ctx),
           originalFileName = file_name (ctx_resume ctx),
           sanitizedFileName = sanitizedName (ctx_resumeValidation ctx),
           fileType = file_type (ctx_resume ctx),
           fileCategory = ''pdf'',
           fileSize = file_size (ctx_resume ctx),
           uploadedBy = emailAddress',
           uploadPurpose = ''application_resume'',
           relatedEntityId = app_id app,
           relatedEntityType = ''Application'',
           uploadSource = ''web'',
           uploadIPAddress = ipAddress,
           userAgent = userAgent'\<rparr>])"

text \<open>
  Steps 10 to 14: the duplicate check, the save of the application, the save of the two
  file records inside its own \<open>try\<close> whose \<open>catch\<close> only logs, and the success response.
\<close>

definition v2_persist :: "env \<Rightarrow> world \<Rightarrow> request \<Rightarrow> v2_context \<Rightarrow> response step \<times> world" where
  "v2_persist e w req ctx =
     (let emailAddress' = formData_get (ctx_formData ctx) ''emailAddress''
      in case findOne e (applications w) emailAddress' of
           Inl err \<Rightarrow> (Throw err, w)
         | Inr (Some existingApplication) \<Rightarrow>
             (Return (createErrorResponse ''VALIDATION_FAILED''
                        (Some ''Application with this email already exists'') None), w)
         | Inr None \<Rightarrow>
             (let applicationData =
                    applicationData_of e (ctx_formData ctx)
                      (fst (ctx_photographUpload ctx)) (fst (ctx_resumeUpload ctx))
              in case save e (applications w) applicationData of
                   Inl err \<Rightarrow> (Throw err, w)
                 | Inr app \<Rightarrow>
                     (let w1 = w\<lparr>applications := applications w @ [app]\<rparr>;
                          (thrown, inserted) =
                             create e (fileUploads w1) (v2_file_records req ctx app);
                          w2 = w1\<lparr>fileUploads := fileUploads w1 @ inserted\<rparr>
                      in (Return (createSuccessResponse
                                    (JObject [(''applicationId'', JString (app_id app)),
                                              (''fullName'', JString (app_fullName app)),
                                              (''email'', JString (app_emailAddress app)),
                                              (''role'', JString (app_roleAppliedFor app)),
                                              (''submittedAt'', JString (app_submittedAt app))])
                                    201), w2))))"

text \<open>The outer \<open>catch\<close>.\<close>

definition v2_catch :: "env \<Rightarrow> js_error \<Rightarrow> response" where
  "v2_catch e err =
     (if err_name err = ''ValidationError''
      then createErrorResponse ''VALIDATION_FAILED'' (Some (join '', '' (err_errors err))) None
      else createErrorResponse ''INTERNAL_ERROR'' (Some ''An unexpected error occurred'')
             (if NODE_ENV (process_env e) = Some ''development''
              then Some (JObject [(''error'', JString (err_message err))])
              else None))"

definition finish :: "(js_error \<Rightarrow> response) \<Rightarrow> response step \<times> world \<Rightarrow> response \<times> world" where
  "finish handler r =
     (case r of
        (Next resp, w) \<Rightarrow> (resp, w)
      | (Return resp, w) \<Rightarrow> (resp, w)
      | (Throw err, w) \<Rightarrow> (handler err, w))"

definition POST_v2 :: "env \<Rightarrow> world \<Rightarrow> request \<Rightarrow> response \<times> world" where
  "POST_v2 e w req =
     finish (v2_catch e)
       (case v2_intake e w req of
          (Return resp, w1) \<Rightarrow> (Return resp, w1)
        | (Throw err, w1) \<Rightarrow> (Throw err, w1)
        | (Next ctx, w1) \<Rightarrow> v2_persist e w1 req ctx)"

section \<open>The first pipeline (app/api/applications/route.js)\<close>

text \<open>A response built in place: \<open>NextResponse.json(body, { status })\<close>.\<close>

definition json_response :: "nat \<Rightarrow> (string \<times> json) list \<Rightarrow> response" where
  "json_response st props = \<lparr>status = st, body = JObject props\<rparr>"

text \<open>
  Step 3: both files must be present, the photograph an image, the resume a PDF, both
  within the size limits. A non-empty text value under \<open>photograph\<close> has no \<open>type\<close>, so
  \<open>photograph.type.startsWith\<close> throws; under \<open>resume\<close> its \<open>type\<close> is \<open>undefined\<close>, which
  differs from \<open>application/pdf\<close>.
\<close>

definition v1_files :: "env \<Rightarrow> (string \<times> form_value) list \<Rightarrow> (js_file \<times> js_file) step" where
  "v1_files e fd =
     (let photograph = formData_get fd ''photograph'';
          resume = formData_get fd ''resume''
      in if \<not> truthy_value photograph \<or> \<not> truthy_value resume
         then Return (json_response 400
                [(''success'', JBool False),
                 (''message'', JString ''Photograph and resume are required'')])
         else (case photograph of
                 File p \<Rightarrow>
                   if \<not> prefix ''image/'' (file_type p)
                   then Return (json_response 400
                          [(''success'', JBool False),
                           (''message'', JString ''Photograph must be an image file'')])
                   else (case resume of
                           File r \<Rightarrow>
                             if file_type r \<noteq> ''application/pdf''
                             then Return (json_response 400
                                    [(''success'', JBool False),
                                     (''message'', JString ''Resume must be a PDF file'')])
                             else let maxImageSize = 5 * 1024 * 1024;
                                      maxPdfSize = 10 * 1024 * 1024
                                  in if file_size p > maxImageSize
                                     then Return (json_response 400
                                            [(''success'', JBool False),
                                             (''message'',
                                              JString ''Photograph size must be less than 5MB'')])
                                     else if file_size r > maxPdfSize
                                     then Return (json_response 400
                                            [(''success'', JBool False),
                                             (''message'',
                                              JString ''Resume size must be less than 10MB'')])
                                     else Next (p, r)
                         | _ \<Rightarrow>
                             Return (json_response 400
                               [(''success'', JBool False),
                                (''message'', JString ''Resume must be a PDF file'')]))
               | _ \<Rightarrow> Throw (type_error e ''startsWith'')))"

text \<open>Step 4: the two uploads, the photograph first.\<close>

definition v1_uploads ::
  "env \<Rightarrow> js_file \<Rightarrow> js_file \<Rightarrow> ((string \<times> string) \<times> (string \<times> string)) step" where
  "v1_uploads e p r =
     (let photographBase64 = base64_uri (file_type p) (arrayBuffer p);
          resumeBase64 = base64_uri (file_type r) (arrayBuffer r)
      in case uploadToCloudinary e photographBase64 ''socialmm/applications/photographs'' ''image'' of
           UploadFailed m \<Rightarrow>
             Return (json_response 500
               [(''success'', JBool False),
                (''message'', JString ''Failed to upload photograph''),
                (''error'', JString m)])
         | UploadOk photoUrl photoId \<Rightarrow>
             (case uploadToCloudinary e resumeBase64 ''socialmm/applications/resumes'' ''raw'' of
                UploadFailed m \<Rightarrow>
                  Return (json_response 500
                    [(''success'', JBool False),
                     (''message'', JString ''Failed to upload resume''),
                     (''error'', JString m)])
              | UploadOk resumeUrl' resumeId \<Rightarrow>
                  Next ((photoUrl, photoId), (resumeUrl', resumeId))))"

record v1_context =
  v1_formData :: "(string \<times> form_value) list"
  v1_photographUpload :: "string \<times> string"
  v1_resumeUpload :: "string \<times> string"

text \<open>
  Steps 1 to 4 in order. Step 1 is \<open>connectDB\<close> inside its own \<open>try\<close>, whose \<open>catch\<close>
  answers with the classified error; step 2 parses the form.
\<close>

definition v1_intake :: "env \<Rightarrow> world \<Rightarrow> request \<Rightarrow> v1_context step \<times> world" where
  "v1_intake e w req =
     (case connectDB e w of
        (Inl dbError, w1) \<Rightarrow>
          (Return \<lparr>status = getHttpStatus dbError,
                   body = createErrorResponse_db e dbError ''MongoClient.connect''\<rparr>, w1)
      | (Inr c, w1) \<Rightarrow>
          (case formData req of
             Inl err \<Rightarrow> (Throw err, w1)
           | Inr fd \<Rightarrow>
               (case v1_files e fd of
                  Return resp \<Rightarrow> (Return resp, w1)
                | Throw err \<Rightarrow> (Throw err, w1)
                | Next (p, r) \<Rightarrow>
                    (case v1_uploads e p r of
                       Return resp \<Rightarrow> (Return resp, w1)
                     | Throw err \<Rightarrow> (Throw err, w1)
                     | Next (photographUpload, resumeUpload) \<Rightarrow>
                         (Next \<lparr>v1_formData = fd,
                                v1_photographUpload = photographUpload,
                                v1_resumeUpload = resumeUpload\<rparr>, w1)))))"

text \<open>
  Steps 5 to 8: the application data, the duplicate check, the save inside its own \<open>try\<close>
  whose \<open>catch\<close> answers with the classified error, and the success response.
\<close>

definition v1_persist :: "env \<Rightarrow> world \<Rightarrow> v1_context \<Rightarrow> response step \<times> world" where
  "v1_persist e w ctx =
     (let applicationData =
            applicationData_of e (v1_formData ctx)
              (fst (v1_photographUpload ctx)) (fst (v1_resumeUpload ctx))
      in case findOne e (applications w) (emailAddress applicationData) of
           Inl err \<Rightarrow> (Throw err, w)
         | Inr (Some existingApplication) \<Rightarrow>
             (Return (json_response 409
                [(''success'', JBool False),
                 (''message'',
                  JString ''An application with this email address already exists'')]), w)
         | Inr None \<Rightarrow>
             (case save e (applications w) applicationData of
                Inl saveError \<Rightarrow>
                  (Return \<lparr>status = getHttpStatus saveError,
                           body = createErrorResponse_db e saveError ''insertApplication''\<rparr>, w)
              | Inr app \<Rightarrow>
                  (Return (json_response 201
                     [(''success'', JBool True),
                      (''message'', JString ''Application submitted successfully''),
                      (''applicationId'', JString (app_id app)),
                      (''data'', JObject [(''fullName'', JString (app_fullName app)),
                                          (''email'', JString (app_emailAddress app)),
                                          (''role'', JString (app_roleAppliedFor app))])]),
                   w\<lparr>applications := applications w @ [app]\<rparr>)))"

text \<open>The outer \<open>catch\<close>.\<close>

definition v1_catch :: "env \<Rightarrow> js_error \<Rightarrow> response" where
  "v1_catch e err =
     (if err_name err = ''ValidationError''
      then json_response 400
             [(''success'', JBool False),
              (''errorType'', JString ''DATABASE_WRITE''),
              (''message'', JString (''Validation error: '' @ join '', '' (err_errors err))),
              (''location'', JString ''formValidation''),
              (''hint'', JString ''Check that all required fields are filled correctly''),
              (''timestamp'', JString (now e))]
      else \<lparr>status = getHttpStatus err,
            body = createErrorResponse_db e err ''submitApplication''\<rparr>)"

definition POST_v1 :: "env \<Rightarrow> world \<Rightarrow> request \<Rightarrow> response \<times> world" where
  "POST_v1 e w req =
     finish (v1_catch e)
       (case v1_intake e w req of
          (Return resp, w1) \<Rightarrow> (Return resp, w1)
        | (Throw err, w1) \<Rightarrow> (Throw err, w1)
        | (Next ctx, w1) \<Rightarrow> v1_persist e w1 ctx)"

section \<open>The applications collection under the schema of models/Application.js\<close>

text \<open>
  The schema declares \<open>emailAddress\<close> with \<open>lowercase: true, trim: true\<close> and a unique index,
  and \<open>fullName\<close> and \<open>roleAppliedFor\<close> with \<open>trim: true\<close>. Mongoose applies these setters
  (\<open>String.prototype.trim\<close> and \<open>String.prototype.toLowerCase\<close>)
  when a document is built and when the conditions of a query are cast; MongoDB rejects an
  insert that repeats a key of the unique index with error 11000. The other validators of
  the schema are a parameter: the messages of those that fail for the given data.
\<close>

definition js_space :: "char \<Rightarrow> bool" where
  "js_space c \<longleftrightarrow> c \<in> set [CHR 0x09, CHR 0x0A, CHR 0x0B, CHR 0x0C, CHR 0x0D, CHR 0x20, CHR 0xA0]"

definition trim :: "string \<Rightarrow> string" where
  "trim s = rev (dropWhile js_space (rev (dropWhile js_space s)))"

definition normalize_email :: "string \<Rightarrow> string" where
  "normalize_email s = toLowerCase (trim s)"

definition CastError :: js_error where
  "CastError = \<lparr>err_name = ''CastError'',
                 err_message = ''Cast to string failed for value at path emailAddress'',
                 err_code = None, err_codeName = None, err_errors = []\<rparr>"

definition ValidationError :: "string list \<Rightarrow> js_error" where
  "ValidationError msgs =
     \<lparr>err_name = ''ValidationError'',
      err_message = ''Application validation failed: '' @ join '', '' msgs,
      err_code = None, err_codeName = None, err_errors = msgs\<rparr>"

definition DuplicateKeyError :: "string \<Rightarrow> js_error" where
  "DuplicateKeyError email =
     \<lparr>err_name = ''MongoServerError'',
      err_message = ''E11000 duplicate key error collection: applications index: ''
                    @ ''emailAddress_1 dup key: { emailAddress: '' @ email @ '' }'',
      err_code = Some (CodeNum 11000), err_codeName = Some ''DuplicateKey'',
      err_errors = []\<rparr>"

definition mongoose_findOne :: "application list \<Rightarrow> form_value \<Rightarrow> js_error + application option" where
  "mongoose_findOne apps q =
     (case q of
        Text s \<Rightarrow> Inr (find (\<lambda>a. app_emailAddress a = normalize_email s) apps)
      | Null \<Rightarrow> Inr None
      | File f \<Rightarrow> Inl CastError)"

definition required_text :: "form_value \<Rightarrow> string \<Rightarrow> string + string" where
  "required_text v msg =
     (case v of
        Text s \<Rightarrow> if trim s = [] then Inl msg else Inr (trim s)
      | _ \<Rightarrow> Inl msg)"

definition mongoose_save ::
  "(application_data \<Rightarrow> string list) \<Rightarrow> (application list \<Rightarrow> string) \<Rightarrow> string
   \<Rightarrow> application list \<Rightarrow> application_data \<Rightarrow> js_error + application" where
  "mongoose_save validators new_id submittedAt apps d =
     (case (required_text (fullName d) ''Full name is required'',
            required_text (emailAddress d) ''Email address is required'',
            required_text (roleAppliedFor d) ''Role applied for is required'') of
        (Inr name, Inr email, Inr role) \<Rightarrow>
          if validators d \<noteq> [] then Inl (ValidationError (validators d))
          else if find (\<lambda>a. app_emailAddress a = toLowerCase email) apps \<noteq> None
          then Inl (DuplicateKeyError (toLowerCase email))
          else Inr \<lparr>app_id = new_id apps, app_fullName = name,
                    app_emailAddress = toLowerCase email, app_roleAppliedFor = role,
                    app_submittedAt = submittedAt\<rparr>
      | (a, b, c) \<Rightarrow>
          Inl (ValidationError
                 ((case a of Inl m \<Rightarrow> [m] | Inr x \<Rightarrow> [])
                  @ (case b of Inl m \<Rightarrow> [m] | Inr x \<Rightarrow> [])
                  @ (case c of Inl m \<Rightarrow> [m] | Inr x \<Rightarrow> [])
                  @ validators d)))"

section \<open>A sample deployment and sample submissions\<close>

text \<open>
  The surroundings used to run the pipelines on concrete submissions: a production
  deployment, a runtime whose \<open>parseInt\<close> and \<open>parseFloat\<close> are given on strings of decimal
  digits (the samples use no other), a database that connects at once, an uploader that
  stores every file, and the collection modelled above with no further validation failures.
\<close>

definition digits_value :: "string \<Rightarrow> nat" where
  "digits_value s =
     foldl (\<lambda>n c. 10 * n + (case map_of (zip ascii_digits [0 ..< 10]) c of
                              Some d \<Rightarrow> d | None \<Rightarrow> 0)) 0 s"

definition sample_parse :: "form_value \<Rightarrow> js_number" where
  "sample_parse v =
     (case v of
        Text s \<Rightarrow> if s \<noteq> [] \<and> list_all (\<lambda>c. c \<in> set ascii_digits) s
                  then Finite (of_nat (digits_value s)) else NaN
      | _ \<Rightarrow> NaN)"

definition sample_uploader :: "data_uri \<Rightarrow> upload_options \<Rightarrow> js_error + cloudinary_result" where
  "sample_uploader d opts =
     Inr \<lparr>secure_url = ''https://res.cloudinary.com/sample/'' @ folder opts @ ''/f1'',
          public_id = folder opts @ ''/f1''\<rparr>"

definition sample_id :: "application list \<Rightarrow> string" where
  "sample_id apps = ''id'' @ show_nat (length apps)"

definition sample_connect :: "nat \<Rightarrow> js_error + connection" where
  "sample_connect n = Inr (Connection n)"

definition sample_create ::
  "file_upload_data list \<Rightarrow> file_upload_data list \<Rightarrow> js_error option \<times> file_upload_data list" where
  "sample_create existing recs = (None, recs)"

definition sample_env ::
  "(nat \<Rightarrow> js_error + connection)
   \<Rightarrow> (data_uri \<Rightarrow> upload_options \<Rightarrow> js_error + cloudinary_result)
   \<Rightarrow> (file_upload_data list \<Rightarrow> file_upload_data list
        \<Rightarrow> js_error option \<times> file_upload_data list)
   \<Rightarrow> env" where
  "sample_env connect uploader creator =
     \<lparr>process_env = \<lparr>NODE_ENV = Some ''production'',
                      NEXT_PUBLIC_APP_URL = Some ''https://forms.example'',
                      CLOUDINARY_FOLDER_PREFIX = None\<rparr>,
      url_origin = (\<lambda>u. Inr u),
      parseInt = sample_parse,
      parseFloat = sample_parse,
      now = ''2026-01-01T00:00:00.000Z'',
      type_error = (\<lambda>prop. \<lparr>err_name = ''TypeError'',
                             err_message = ''Cannot read properties of undefined (reading ''
                                           @ prop @ '')'',
                             err_code = None, err_codeName = None, err_errors = []\<rparr>),
      mongoose_connect = connect,
      uploader_upload = uploader,
      findOne = mongoose_findOne,
      save = mongoose_save (\<lambda>d. []) sample_id ''2026-01-01T00:00:00.000Z'',
      create = creator\<rparr>"

text \<open>
  Three faults: a database whose first connection attempt times out, an uploader that
  fails on raw files (the resume), and a file-record collection whose writes throw.
\<close>

definition flaky_connect :: "nat \<Rightarrow> js_error + connection" where
  "flaky_connect n = (if n = 0 then Inl (Error ''connection timed out'') else Inr (Connection n))"

definition raw_failing_uploader :: "data_uri \<Rightarrow> upload_options \<Rightarrow> js_error + cloudinary_result" where
  "raw_failing_uploader d opts =
     (if resource_type opts = ''raw'' then Inl (Error ''Upload timed out'')
      else sample_uploader d opts)"

definition throwing_create ::
  "file_upload_data list \<Rightarrow> file_upload_data list \<Rightarrow> js_error option \<times> file_upload_data list" where
  "throwing_create existing recs = (Some (Error ''FileUpload validation failed''), [])"

definition sample_world :: world where
  "sample_world =
     \<lparr>cached = \<lparr>conn = None, promise = None\<rparr>, connectAttempts = 0,
      applications = [], fileUploads = []\<rparr>"

definition sample_photograph :: js_file where
  "sample_photograph =
     \<lparr>file_name = ''ada.jpg'', file_type = ''image/jpeg'',
      file_bytes = [0xFF, 0xD8, 0xFF, 0xE0, 0x00, 0x10]\<rparr>"

definition sample_resume :: js_file where
  "sample_resume =
     \<lparr>file_name = ''ada.pdf'', file_type = ''application/pdf'',
      file_bytes = [0x25, 0x50, 0x44, 0x46, 0x2D, 0x31]\<rparr>"

definition sample_form :: "string \<Rightarrow> (string \<times> form_value) list" where
  "sample_form email =
     [(''fullName'', Text ''Ada Lovelace''),
      (''age'', Text ''36''),
      (''gender'', Text ''Female''),
      (''mobileNumber'', Text ''9876543210''),
      (''emailAddress'', Text email),
      (''city'', Text ''London''),
      (''state'', Text ''England''),
      (''highestQualification'', Text ''MSc''),
      (''specialization'', Text ''Mathematics''),
      (''collegeName'', Text ''University of London''),
      (''yearOfPassing'', Text ''2015''),
      (''careerGap'', Text ''0''),
      (''roleAppliedFor'', Text ''Analyst''),
      (''primarySkillSet'', Text ''Analysis''),
      (''totalExperience'', Text ''10 years''),
      (''availability'', Text ''Immediate''),
      (''declarationAccepted'', Text ''true''),
      (''photograph'', File sample_photograph),
      (''resume'', File sample_resume)]"

definition sample_request :: "string \<Rightarrow> request" where
  "sample_request email =
     \<lparr>headers = [(''content-type'', ''multipart/form-data; boundary=x''),
                 (''origin'', ''https://forms.example''),
                 (''user-agent'', ''Mozilla/5.0'')],
      formData = Inr (sample_form email)\<rparr>"

section \<open>Failure responses\<close>

text \<open>A response that is not the success response: not HTTP 201, and \<open>success: false\<close>.\<close>

definition failure :: "response \<Rightarrow> bool" where
  "failure resp \<longleftrightarrow> status resp \<noteq> 201 \<and> json_get (body resp) ''success'' = Some (JBool False)"

section \<open>The sample submission after the uploads\<close>

text \<open>What the second pipeline holds for a sample submission once steps 1 to 9 have passed.\<close>

definition sample_ctx :: "string \<Rightarrow> v2_context" where
  "sample_ctx m =
    
  \<lparr>ctx_formData = sample_form m, ctx_photograph = sample_photograph,
   ctx_photoValidation = validateFile (File sample_photograph) ''IMAGE'',
   ctx_resume = sample_resume,
   ctx_resumeValidation = validateFile (File sample_resume) ''PDF'',
   ctx_photographUpload =
     (''https://res.cloudinary.com/sample/uploads/applications/photographs/f1'',
      ''uploads/applications/photographs/f1''),
   ctx_resumeUpload =
     (''https://res.cloudinary.com/sample/uploads/applications/resumes/f1'',
      ''uploads/applications/resumes/f1'')\<rparr>"

section \<open>Properties of the file validator\<close>

lemmas alphabet_defs = ascii_lower_def ascii_upper_def ascii_digits_def
  latin1_lower_def latin1_upper_def

lemma valid_ok [simp]: "valid ok" "\<not> valid (invalid m)"
  by (simp_all add: ok_def invalid_def)

subsection \<open>Size limits\<close>

lemma validateFileSize_valid_iff:
  assumes "map_of FILE_SIZE_LIMITS category = Some limit" "0 < limit"
  shows "valid (validateFileSize f category) \<longleftrightarrow> 0 < file_size f \<and> file_size f \<le> limit"
  using assms by (auto simp: validateFileSize_def)

lemma validateFile_valid_size:
  "valid (validateFile (File f) category) \<Longrightarrow> valid (validateFileSize f category)"
  by (auto simp: validateFile_def split: if_splits)

text \<open>
  C2. For the categories \<open>IMAGE\<close> (ceiling 5 MiB) and \<open>PDF\<close> (ceiling 10 MiB), \<open>validateFile\<close>
  returns invalid for every file whose size is 0 or strictly above the ceiling; the size
  check passes for a file of exactly the ceiling and fails one byte above it.
\<close>

theorem validate_size_limits:
  assumes "(category, limit) \<in> {(''IMAGE'', 5 * 1024 * 1024), (''PDF'', 10 * 1024 * 1024)}"
  shows "(file_size f = 0 \<or> limit < file_size f \<longrightarrow> \<not> valid (validateFile (File f) category))
       \<and> (file_size f = limit \<longrightarrow> valid (validateFileSize f category))
       \<and> (file_size f = limit + 1 \<longrightarrow> \<not> valid (validateFileSize f category))"
proof -
  from assms have lim: "map_of FILE_SIZE_LIMITS category = Some limit" and pos: "0 < limit"
    by (auto simp: FILE_SIZE_LIMITS_def)
  note iff = validateFileSize_valid_iff [OF lim pos, of f]
  have "\<not> valid (validateFile (File f) category)" if "file_size f = 0 \<or> limit < file_size f"
    using that iff validateFile_valid_size [of f category] by auto
  moreover have "valid (validateFileSize f category)" if "file_size f = limit"
    using that iff pos by simp
  moreover have "\<not> valid (validateFileSize f category)" if "file_size f = limit + 1"
    using that iff by simp
  ultimately show ?thesis by blast
qed

theorem validate_size_limits_witness:
  "(''PDF'', 10 * 1024 * 1024) \<in> {(''IMAGE'', 5 * 1024 * 1024), (''PDF'', 10 * 1024 * 1024 :: nat)}
   \<and> \<not> valid (validateFile (File \<lparr>file_name = ''cv.pdf'', file_type = ''application/pdf'',
         file_bytes = []\<rparr>) ''PDF'')
   \<and> \<not> valid (validateFile (File \<lparr>file_name = ''cv.pdf'', file_type = ''application/pdf'',
         file_bytes = replicate (10 * 1024 * 1024 + 1) 0\<rparr>) ''PDF'')
   \<and> valid (validateFileSize \<lparr>file_name = ''cv.pdf'', file_type = ''application/pdf'',
         file_bytes = replicate (10 * 1024 * 1024) 0\<rparr> ''PDF'')
   \<and> \<not> valid (validateFileSize \<lparr>file_name = ''cv.pdf'', file_type = ''application/pdf'',
         file_bytes = replicate (10 * 1024 * 1024 + 1) 0\<rparr> ''PDF'')"
  using validate_size_limits [of "''PDF''" "10 * 1024 * 1024"
          "\<lparr>file_name = ''cv.pdf'', file_type = ''application/pdf'', file_bytes = []\<rparr>"]
        validate_size_limits [of "''PDF''" "10 * 1024 * 1024"
          "\<lparr>file_name = ''cv.pdf'', file_type = ''application/pdf'',
            file_bytes = replicate (10 * 1024 * 1024 + 1) 0\<rparr>"]
        validate_size_limits [of "''PDF''" "10 * 1024 * 1024"
          "\<lparr>file_name = ''cv.pdf'', file_type = ''application/pdf'',
            file_bytes = replicate (10 * 1024 * 1024) 0\<rparr>"]
  by (simp add: file_size_def)

subsection \<open>Filename sanitization\<close>

lemma strip_traversal_no_slash: "CHR ''/'' \<notin> set s \<Longrightarrow> strip_traversal s = s"
  by (induction s rule: strip_traversal.induct) auto

lemma safe_char_not_slash: "safe_char c \<Longrightarrow> c \<noteq> CHR ''/''"
  by (auto simp: safe_char_def alphabet_defs)

lemma replace_unsafe_safe: "c \<in> set (replace_unsafe s) \<Longrightarrow> safe_char c"
  by (auto simp: replace_unsafe_def safe_char_def alphabet_defs)

lemma replace_unsafe_id: "\<forall>c \<in> set s. safe_char c \<Longrightarrow> replace_unsafe s = s"
  by (induction s) (auto simp: replace_unsafe_def)

lemma sanitizeFilename_safe: "c \<in> set (sanitizeFilename x) \<Longrightarrow> safe_char c"
  unfolding sanitizeFilename_def by (meson in_set_takeD replace_unsafe_safe)

lemma sublist_set: "sublist xs ys \<Longrightarrow> set xs \<subseteq> set ys"
  by (auto simp: sublist_def)

text \<open>
  C3 (as amended). \<open>sanitizeFilename\<close> is idempotent, and its output never contains \<open>/\<close>,
  never contains the sequence \<open>../\<close>, and never contains a character outside
  \<open>[A-Za-z0-9._-]\<close>. (Two consecutive dots that are not followed by a slash are kept.)
\<close>

theorem sanitizeFilename_idempotent_safe:
  "sanitizeFilename (sanitizeFilename x) = sanitizeFilename x
   \<and> CHR ''/'' \<notin> set (sanitizeFilename x)
   \<and> \<not> sublist ''../'' (sanitizeFilename x)
   \<and> list_all safe_char (sanitizeFilename x)"
proof -
  let ?y = "sanitizeFilename x"
  have safe: "\<forall>c \<in> set ?y. safe_char c" using sanitizeFilename_safe by blast
  then have noslash: "CHR ''/'' \<notin> set ?y" using safe_char_not_slash by blast
  then have "strip_traversal ?y = ?y" by (rule strip_traversal_no_slash)
  moreover have "replace_unsafe ?y = ?y" using safe by (rule replace_unsafe_id)
  moreover have "length ?y \<le> 100" by (simp add: sanitizeFilename_def)
  ultimately have idem: "sanitizeFilename ?y = ?y" by (simp add: sanitizeFilename_def [of ?y])
  have "\<not> sublist ''../'' ?y"
  proof
    assume "sublist ''../'' ?y"
    then have "set ''../'' \<subseteq> set ?y" by (rule sublist_set)
    with noslash show False by simp
  qed
  with idem noslash safe show ?thesis by (simp add: list_all_iff)
qed

text \<open>The claim as stated fails: a name with two dots in a row keeps them.\<close>

theorem sanitizeFilename_keeps_dotdot:
  "sanitizeFilename ''my..cv.pdf'' = ''my..cv.pdf''
   \<and> sublist ''..'' (sanitizeFilename ''my..cv.pdf'')"
  by code_simp

text \<open>
  C4. Sanitization is to truncate the result to 100 characters while keeping the file
  extension as the suffix of the output. The code does not at these two names:
  \<open>sanitizeFilename\<close> cuts 100 letters followed by \<open>.pdf\<close> down to the 100 letters, so the
  extension is lost, and \<open>sanitizeFileName\<close> returns a name of 101 letters without a dot
  at its full length.
\<close>

theorem sanitize_truncation_failures:
  "sanitizeFilename (replicate 100 (CHR ''a'') @ ''.pdf'') = replicate 100 (CHR ''a'')
   \<and> \<not> endsWith (sanitizeFilename (replicate 100 (CHR ''a'') @ ''.pdf'')) ''.pdf''
   \<and> length (sanitizeFileName (replicate 101 (CHR ''a''))) = 101"
  by code_simp

subsection \<open>MIME types\<close>

text \<open>
  C5 (as amended). \<open>validateMimeType\<close> accepts exactly \<open>image/jpeg\<close>, \<open>image/png\<close> and
  \<open>image/webp\<close> for category \<open>IMAGE\<close> and exactly \<open>application/pdf\<close> for category \<open>PDF\<close>;
  \<open>image/jpg\<close> is accepted only by the allow-list of \<open>FILE_CONFIG\<close>, which
  \<open>validateFileType\<close> checks together with the extension of the name.
\<close>

theorem mime_allow_lists:
  "(valid (validateMimeType f ''IMAGE'')
      \<longleftrightarrow> file_type f \<in> {''image/jpeg'', ''image/png'', ''image/webp''})
   \<and> (valid (validateMimeType f ''PDF'') \<longleftrightarrow> file_type f = ''application/pdf'')
   \<and> (valid (validateFileType f ''image'') \<longleftrightarrow>
        file_type f \<in> {''image/jpeg'', ''image/jpg'', ''image/png'', ''image/webp''}
        \<and> list_ex (endsWith (toLowerCase (file_name f))) [''.jpg'', ''.jpeg'', ''.png'', ''.webp''])
   \<and> (valid (validateFileType f ''pdf'') \<longleftrightarrow>
        file_type f = ''application/pdf'' \<and> endsWith (toLowerCase (file_name f)) ''.pdf'')"
proof -
  have a: "valid (validateMimeType f ''IMAGE'')
      \<longleftrightarrow> file_type f \<in> {''image/jpeg'', ''image/png'', ''image/webp''}"
    by (simp add: validateMimeType_def ALLOWED_MIME_TYPES_def)
  have b: "valid (validateMimeType f ''PDF'') \<longleftrightarrow> file_type f = ''application/pdf''"
    by (simp add: validateMimeType_def ALLOWED_MIME_TYPES_def)
  have c: "valid (validateFileType f ''image'') \<longleftrightarrow>
        file_type f \<in> {''image/jpeg'', ''image/jpg'', ''image/png'', ''image/webp''}
        \<and> list_ex (endsWith (toLowerCase (file_name f))) [''.jpg'', ''.jpeg'', ''.png'', ''.webp'']"
    by (simp add: validateFileType_def FILE_CONFIG_def Let_def)
  have d: "valid (validateFileType f ''pdf'') \<longleftrightarrow>
        file_type f = ''application/pdf'' \<and> endsWith (toLowerCase (file_name f)) ''.pdf''"
    by (simp add: validateFileType_def FILE_CONFIG_def Let_def)
  from a b c d show ?thesis by blast
qed

text \<open>The claim as stated fails: a photograph declared as \<open>image/jpg\<close> is rejected.\<close>

theorem image_jpg_rejected:
  "\<not> valid (validateMimeType \<lparr>file_name = ''photo.jpg'', file_type = ''image/jpg'',
        file_bytes = [0xFF, 0xD8, 0xFF, 0xE0]\<rparr> ''IMAGE'')"
  by (simp add: validateMimeType_def ALLOWED_MIME_TYPES_def)

subsection \<open>Byte signatures\<close>

lemma signature_every_take: "signature_every bs sg \<longleftrightarrow> take (length sg) bs = sg"
proof -
  have "signature_every bs sg \<longleftrightarrow> (\<forall>i < length sg. i < length bs \<and> bs ! i = sg ! i)"
    by (auto simp: signature_every_def list_all_length uint8_at_def)
  also have "\<dots> \<longleftrightarrow> take (length sg) bs = sg"
  proof
    assume L: "\<forall>i < length sg. i < length bs \<and> bs ! i = sg ! i"
    have "length sg \<le> length bs"
    proof (rule ccontr)
      assume "\<not> length sg \<le> length bs"
      then have "length bs < length sg" by simp
      with L have "length bs < length bs" by blast
      then show False by simp
    qed
    then show "take (length sg) bs = sg" using L by (simp add: list_eq_iff_nth_eq)
  next
    assume R: "take (length sg) bs = sg"
    then have "length (take (length sg) bs) = length sg" by simp
    then have le: "length sg \<le> length bs" by simp
    show "\<forall>i < length sg. i < length bs \<and> bs ! i = sg ! i"
    proof (intro allI impI)
      fix i assume i: "i < length sg"
      then have "take (length sg) bs ! i = bs ! i" by simp
      with R have "sg ! i = bs ! i" by simp
      with i le show "i < length bs \<and> bs ! i = sg ! i" by simp
    qed
  qed
  finally show ?thesis .
qed

lemma validateFileSignature_known:
  assumes "(mime, sg) \<in> set [(''image/jpeg'', [0xFF, 0xD8, 0xFF]),
                             (''image/png'', [0x89, 0x50, 0x4E, 0x47]),
                             (''image/webp'', [0x52, 0x49, 0x46, 0x46]),
                             (''application/pdf'', [0x25, 0x50, 0x44, 0x46])]"
  shows "validateFileSignature bs mime \<longleftrightarrow> take (length sg) bs = sg"
proof -
  have "map_of FILE_SIGNATURES mime = Some [sg]"
    using assms by (auto simp: FILE_SIGNATURES_def)
  then show ?thesis
    by (simp add: validateFileSignature_def signature_every_take)
qed

text \<open>
  C6 (as amended). A file whose leading bytes differ from the signature of its declared
  MIME type (JPEG \<open>FF D8 FF\<close>, PNG \<open>89 50 4E 47\<close>, WEBP \<open>52 49 46 46\<close>, PDF \<open>25 50 44 46\<close>) is
  never valid; and when the checks that run before the signature check pass (the name is
  not an external URL, the MIME type is allowed for the category, the size is within the
  limits), the result is the content-mismatch message.
\<close>

theorem signature_mismatch_rejected:
  assumes "(mime, sg) \<in> set [(''image/jpeg'', [0xFF, 0xD8, 0xFF]),
                             (''image/png'', [0x89, 0x50, 0x4E, 0x47]),
                             (''image/webp'', [0x52, 0x49, 0x46, 0x46]),
                             (''application/pdf'', [0x25, 0x50, 0x44, 0x46])]"
    and "file_type f = mime"
    and "take (length sg) (file_bytes f) \<noteq> sg"
  shows "\<not> valid (validateFile (File f) category)
       \<and> (\<not> containsExternalUrl (Text (file_name f))
            \<and> valid (validateMimeType f category) \<and> valid (validateFileSize f category)
          \<longrightarrow> validateFile (File f) category
                = invalid ''File content does not match declared type'')"
proof -
  have "\<not> validateFileSignature (arrayBuffer f) (file_type f)"
    using assms validateFileSignature_known [OF assms(1), of "file_bytes f"]
    by (simp add: arrayBuffer_def)
  then show ?thesis by (simp add: validateFile_def)
qed

theorem signature_mismatch_rejected_witness:
  "take 4 [0x89, 0x50, 0x4E, 0x47, 0x0D, 0x0A] \<noteq> [0x25, 0x50, 0x44, 0x46 :: byte]
   \<and> validateFile (File \<lparr>file_name = ''cv.pdf'', file_type = ''application/pdf'',
                      file_bytes = [0x89, 0x50, 0x4E, 0x47, 0x0D, 0x0A]\<rparr>) ''PDF''
     = invalid ''File content does not match declared type''"
  using signature_mismatch_rejected [of "''application/pdf''" "[0x25, 0x50, 0x44, 0x46]"
     "\<lparr>file_name = ''cv.pdf'', file_type = ''application/pdf'',
       file_bytes = [0x89, 0x50, 0x4E, 0x47, 0x0D, 0x0A]\<rparr>" "''PDF''"]
  by (simp add: containsExternalUrl_def urlPattern_test_def toUpperCase_char_def alphabet_defs
      validateMimeType_def ALLOWED_MIME_TYPES_def validateFileSize_def FILE_SIZE_LIMITS_def
      file_size_def)

text \<open>
  The claim as stated fails: a JPEG-typed file with a \<open>.jpg\<close> name, an allowed MIME type
  and an allowed size, whose bytes are not a JPEG, is rejected with another message when
  its name starts with \<open>http://\<close>.
\<close>

theorem url_name_masks_mismatch:
  "file_type \<lparr>file_name = ''http://x/a.jpg'', file_type = ''image/jpeg'',
              file_bytes = [0x00, 0x01, 0x02, 0x03]\<rparr> = ''image/jpeg''
   \<and> take 3 (file_bytes \<lparr>file_name = ''http://x/a.jpg'', file_type = ''image/jpeg'',
              file_bytes = [0x00, 0x01, 0x02, 0x03]\<rparr>) \<noteq> [0xFF, 0xD8, 0xFF]
   \<and> valid (validateMimeType \<lparr>file_name = ''http://x/a.jpg'', file_type = ''image/jpeg'',
              file_bytes = [0x00, 0x01, 0x02, 0x03]\<rparr> ''IMAGE'')
   \<and> valid (validateFileSize \<lparr>file_name = ''http://x/a.jpg'', file_type = ''image/jpeg'',
              file_bytes = [0x00, 0x01, 0x02, 0x03]\<rparr> ''IMAGE'')
   \<and> validateFile (File \<lparr>file_name = ''http://x/a.jpg'', file_type = ''image/jpeg'',
              file_bytes = [0x00, 0x01, 0x02, 0x03]\<rparr>) ''IMAGE''
       = invalid ''External URLs not allowed''
   \<and> validateFile (File \<lparr>file_name = ''http://x/a.jpg'', file_type = ''image/jpeg'',
              file_bytes = [0x00, 0x01, 0x02, 0x03]\<rparr>) ''IMAGE''
       \<noteq> invalid ''File content does not match declared type''"
  by (simp add: validateFile_def containsExternalUrl_def urlPattern_test_def
      toUpperCase_char_def alphabet_defs validateMimeType_def ALLOWED_MIME_TYPES_def
      validateFileSize_def FILE_SIZE_LIMITS_def file_size_def invalid_def ok_def)

subsection \<open>Names that are URLs\<close>

text \<open>The two foldings on the tables of cased letters, and \<open>toLowerCase\<close> off them.\<close>

lemma toLowerCase_tables:
  "map toLowerCase_char ascii_upper = ascii_lower"
  "map toLowerCase_char latin1_upper = latin1_lower"
  by (simp_all add: toLowerCase_char_def alphabet_defs)

lemma toUpperCase_tables:
  "map toUpperCase_char ascii_lower = ascii_upper"
  "map toUpperCase_char ascii_upper = ascii_upper"
  by (simp_all add: toUpperCase_char_def alphabet_defs)

lemma toLowerCase_char_other:
  assumes "c \<notin> set ascii_upper" and "c \<notin> set latin1_upper"
  shows "toLowerCase_char c = c"
proof -
  have "c \<notin> set (ascii_upper @ latin1_upper)" using assms by simp
  moreover have "length (ascii_upper @ latin1_upper) = length (ascii_lower @ latin1_lower)"
    by (simp add: alphabet_defs)
  ultimately have "map_of (zip (ascii_upper @ latin1_upper) (ascii_lower @ latin1_lower)) c = None"
    using map_of_zip_is_None [of "ascii_upper @ latin1_upper" "ascii_lower @ latin1_lower" c] by blast
  then show ?thesis by (simp add: toLowerCase_char_def)
qed

text \<open>
  A unit whose small letter is not one of \<open>latin1_lower\<close> has the canonical form of that
  small letter: it is a capital of \<open>A\<close> to \<open>Z\<close>, or it is left alone by \<open>toLowerCase\<close>.
\<close>

lemma toUpperCase_toLowerCase:
  assumes "toLowerCase_char c \<notin> set latin1_lower"
  shows "toUpperCase_char (toLowerCase_char c) = toUpperCase_char c"
proof (cases "c \<in> set ascii_upper")
  case True
  then obtain i where i: "i < length ascii_upper" and c: "c = ascii_upper ! i"
    by (auto simp only: in_set_conv_nth)
  have len: "length ascii_lower = length ascii_upper" by (simp add: alphabet_defs)
  have "toLowerCase_char c = map toLowerCase_char ascii_upper ! i"
    using i c by (simp only: nth_map)
  then have low: "toLowerCase_char c = ascii_lower ! i" by (simp only: toLowerCase_tables)
  have "toUpperCase_char (ascii_lower ! i) = map toUpperCase_char ascii_lower ! i"
    using i len by (simp only: nth_map)
  then have "toUpperCase_char (ascii_lower ! i) = c" using c by (simp only: toUpperCase_tables)
  moreover have "toUpperCase_char c = map toUpperCase_char ascii_upper ! i"
    using i c by (simp only: nth_map)
  then have "toUpperCase_char c = c" using c by (simp only: toUpperCase_tables)
  ultimately show ?thesis using low by simp
next
  case False
  have "c \<notin> set latin1_upper"
  proof
    assume "c \<in> set latin1_upper"
    then have "toLowerCase_char c \<in> set (map toLowerCase_char latin1_upper)" by simp
    then show False using assms by (simp only: toLowerCase_tables)
  qed
  then have "toLowerCase_char c = c" using False by (rule toLowerCase_char_other [rotated])
  then show ?thesis by simp
qed

lemma match_ci_prefix:
  "length p = n \<Longrightarrow> n \<le> length s \<Longrightarrow> toLowerCase (take n s) = p
   \<Longrightarrow> set p \<inter> set latin1_lower = {}
   \<Longrightarrow> match_ci p s = Some (drop n s)"
proof (induction p s arbitrary: n rule: match_ci.induct)
  case (3 p ps c cs)
  then obtain m where n: "n = Suc m" by (cases n) auto
  with 3 have "toLowerCase_char c = p" and "toLowerCase (take m cs) = ps"
    and "length ps = m" and "m \<le> length cs"
    and "p \<notin> set latin1_lower" and "set ps \<inter> set latin1_lower = {}"
    by (simp_all add: toLowerCase_def)
  with 3 n show ?case using toUpperCase_toLowerCase [of c] by auto
qed (simp_all add: toLowerCase_def)

lemma match_ci_append:
  "match_ci (p @ q) s = (case match_ci p s of None \<Rightarrow> None | Some r \<Rightarrow> match_ci q r)"
  by (induction p s rule: match_ci.induct) auto

lemma match_ci_literal:
  assumes "length p = n" and "toLowerCase (take n s) = p"
    and "set p \<inter> set latin1_lower = {}"
  shows "match_ci p s \<noteq> None"
proof -
  have "length (toLowerCase (take n s)) = n" using assms by simp
  then have "n \<le> length s" by (simp add: toLowerCase_def)
  then show ?thesis using assms match_ci_prefix [of p n s] by simp
qed

text \<open>
  C10. A file whose name begins with \<open>http://\<close> or \<open>https://\<close>, in any mix of upper and
  lower case, is rejected by \<open>validateFile\<close> with \<open>External URLs not allowed\<close>, whatever its
  MIME type, size, bytes and category: the check runs before all of those.
\<close>

theorem external_url_name_rejected:
  assumes "toLowerCase (take 7 (file_name f)) = ''http://''
         \<or> toLowerCase (take 8 (file_name f)) = ''https://''"
  shows "validateFile (File f) category = invalid ''External URLs not allowed''"
proof -
  let ?n = "file_name f"
  have "urlPattern_test ?n"
    using assms
  proof
    assume "toLowerCase (take 7 ?n) = ''http://''"
    then have "match_ci ''http://'' ?n \<noteq> None"
      using match_ci_literal [of "''http://''" 7 ?n] by (simp add: latin1_lower_def)
    moreover have "match_ci ''http://'' ?n
        = (case match_ci ''http'' ?n of None \<Rightarrow> None | Some r \<Rightarrow> match_ci ''://'' r)"
      using match_ci_append [of "''http''" "''://''" ?n] by simp
    ultimately obtain r where "match_ci ''http'' ?n = Some r" "match_ci ''://'' r \<noteq> None"
      by (cases "match_ci ''http'' ?n") auto
    then show ?thesis by (simp add: urlPattern_test_def split: option.split)
  next
    assume "toLowerCase (take 8 ?n) = ''https://''"
    then have "match_ci ''https://'' ?n \<noteq> None"
      using match_ci_literal [of "''https://''" 8 ?n] by (simp add: latin1_lower_def)
    moreover have "match_ci ''https://'' ?n =
        (case match_ci ''http'' ?n of None \<Rightarrow> None
         | Some r \<Rightarrow> (case match_ci ''s'' r of None \<Rightarrow> None | Some r' \<Rightarrow> match_ci ''://'' r'))"
      using match_ci_append [of "''http''" "''s://''" ?n] match_ci_append [of "''s''" "''://''"]
      by (simp cong: option.case_cong)
    ultimately obtain r r' where "match_ci ''http'' ?n = Some r" "match_ci ''s'' r = Some r'"
        "match_ci ''://'' r' \<noteq> None"
      by (cases "match_ci ''http'' ?n"; cases "match_ci ''s'' (the (match_ci ''http'' ?n))") auto
    then show ?thesis by (simp add: urlPattern_test_def)
  qed
  then show ?thesis by (simp add: validateFile_def containsExternalUrl_def)
qed

theorem external_url_name_rejected_witness:
  "toLowerCase (take 8 ''HTTPS://evil.example/x.png'') = ''https://''
   \<and> validateFile (File \<lparr>file_name = ''HTTPS://evil.example/x.png'', file_type = ''image/png'',
        file_bytes = [0x89, 0x50, 0x4E, 0x47]\<rparr>) ''IMAGE'' = invalid ''External URLs not allowed''"
  using external_url_name_rejected [of "\<lparr>file_name = ''HTTPS://evil.example/x.png'',
        file_type = ''image/png'', file_bytes = [0x89, 0x50, 0x4E, 0x47]\<rparr>" "''IMAGE''"]
  by (simp add: toLowerCase_def toLowerCase_char_def alphabet_defs)

section \<open>Properties of the connection cache\<close>

text \<open>
  C9. When a \<open>connectDB\<close> attempt fails, both the cached connection and the cached promise
  are cleared before the error reaches the caller, so the next call makes a fresh
  \<open>mongoose.connect\<close> attempt and answers with the outcome of that attempt.
\<close>

theorem connectDB_failure_clears_cache:
  assumes "fst (connectDB e w) = Inl err"
  shows "conn (cached (snd (connectDB e w))) = None
       \<and> promise (cached (snd (connectDB e w))) = None
       \<and> fst (connectDB e' (snd (connectDB e w)))
           = mongoose_connect e' (connectAttempts (snd (connectDB e w)))
       \<and> connectAttempts (snd (connectDB e' (snd (connectDB e w))))
           = connectAttempts (snd (connectDB e w)) + 1"
proof -
  let ?w' = "snd (connectDB e w)"
  have cleared: "conn (cached ?w') = None \<and> promise (cached ?w') = None"
    using assms
    by (auto simp: connectDB_def Let_def split: option.splits sum.splits prod.splits)
  then have "connectDB e' ?w' =
      (case mongoose_connect e' (connectAttempts ?w') of
         Inr c \<Rightarrow> (Inr c, ?w'\<lparr>connectAttempts := connectAttempts ?w' + 1,
                               cached := (cached ?w')\<lparr>promise :=
                                 Some (mongoose_connect e' (connectAttempts ?w')),
                                 conn := Some c\<rparr>\<rparr>)
       | Inl x \<Rightarrow> (Inl x, ?w'\<lparr>connectAttempts := connectAttempts ?w' + 1,
                               cached := (cached ?w')\<lparr>promise := None, conn := None\<rparr>\<rparr>))"
    by (simp add: connectDB_def [of e' ?w'] Let_def split: sum.splits)
  then have "fst (connectDB e' ?w') = mongoose_connect e' (connectAttempts ?w')"
    and "connectAttempts (snd (connectDB e' ?w')) = connectAttempts ?w' + 1"
    by (simp_all split: sum.splits)
  with cleared show ?thesis by simp
qed

theorem connectDB_failure_clears_cache_witness:
  "fst (connectDB (sample_env flaky_connect sample_uploader sample_create) sample_world)
     = Inl (Error ''connection timed out'')
   \<and> cached (snd (connectDB (sample_env flaky_connect sample_uploader sample_create)
                    sample_world))
     = \<lparr>conn = None, promise = None\<rparr>
   \<and> fst (connectDB (sample_env flaky_connect sample_uploader sample_create)
            (snd (connectDB (sample_env flaky_connect sample_uploader sample_create)
                    sample_world)))
     = Inr (Connection 1)"
proof -
  let ?e = "sample_env flaky_connect sample_uploader sample_create"
  have h: "fst (connectDB ?e sample_world) = Inl (Error ''connection timed out'')"
    by (simp add: connectDB_def Let_def flaky_connect_def sample_env_def sample_world_def)
  have n: "connectAttempts (snd (connectDB ?e sample_world)) = 1"
    by (simp add: connectDB_def Let_def flaky_connect_def sample_env_def sample_world_def)
  from connectDB_failure_clears_cache [OF h, of ?e] h n show ?thesis
    by (simp add: flaky_connect_def sample_env_def)
qed

section \<open>Properties of the submission pipelines\<close>

subsection \<open>What a stage does not depend on\<close>

lemma save_irrelevant [simp]:
  "connectDB (e\<lparr>save := sv\<rparr>) w = connectDB e w"
  "v1_files (e\<lparr>save := sv\<rparr>) fd = v1_files e fd"
  "uploadToCloudinary (e\<lparr>save := sv\<rparr>) d fld rt = uploadToCloudinary e d fld rt"
  "v2_guards (e\<lparr>save := sv\<rparr>) req = v2_guards e req"
  "v2_files (e\<lparr>save := sv\<rparr>) fd = v2_files e fd"
  by (simp_all add: connectDB_def v1_files_def uploadToCloudinary_def v2_guards_def
      validateOrigin_def v2_files_def
      cong: option.case_cong sum.case_cong form_value.case_cong if_cong)

lemma save_irrelevant_uploads [simp]:
  "v1_uploads (e\<lparr>save := sv\<rparr>) p r = v1_uploads e p r"
  "v2_uploads (e\<lparr>save := sv\<rparr>) p pv r rv = v2_uploads e p pv r rv"
  by (simp_all add: v1_uploads_def v2_uploads_def
      cong: option.case_cong upload_result.case_cong)

lemma save_irrelevant_intake [simp]:
  "v1_intake (e\<lparr>save := sv\<rparr>) w req = v1_intake e w req"
  "v2_intake (e\<lparr>save := sv\<rparr>) w req = v2_intake e w req"
  by (simp_all add: v1_intake_def v2_intake_def createErrorResponse_db_def
      cong: option.case_cong sum.case_cong step.case_cong prod.case_cong)

lemma save_irrelevant_catch [simp]:
  "v1_catch (e\<lparr>save := sv\<rparr>) = v1_catch e"
  "v2_catch (e\<lparr>save := sv\<rparr>) = v2_catch e"
  by (simp_all add: v1_catch_def v2_catch_def createErrorResponse_db_def fun_eq_iff)

lemma connectDB_applications:
  "applications (snd (connectDB e w)) = applications w"
  "fileUploads (snd (connectDB e w)) = fileUploads w"
  by (auto simp: connectDB_def Let_def split: option.splits sum.splits prod.splits)

lemma v2_files_buffers:
  assumes "v2_files e fd = Next (p, pv, r, rv)"
  shows "buffer pv = Some (arrayBuffer p) \<and> buffer rv = Some (arrayBuffer r)"
  using assms
  by (auto simp: v2_files_def Let_def validateFile_def split: if_splits form_value.splits)

lemma create_irrelevant [simp]:
  "connectDB (e\<lparr>create := cr\<rparr>) w = connectDB e w"
  "uploadToCloudinary (e\<lparr>create := cr\<rparr>) d fld rt = uploadToCloudinary e d fld rt"
  "v2_guards (e\<lparr>create := cr\<rparr>) req = v2_guards e req"
  "v2_files (e\<lparr>create := cr\<rparr>) fd = v2_files e fd"
  "applicationData_of (e\<lparr>create := cr\<rparr>) fd pu ru = applicationData_of e fd pu ru"
  by (simp_all add: connectDB_def uploadToCloudinary_def v2_guards_def
      validateOrigin_def v2_files_def applicationData_of_def
      cong: option.case_cong sum.case_cong form_value.case_cong if_cong)

lemma create_irrelevant_uploads [simp]:
  "v2_uploads (e\<lparr>create := cr\<rparr>) p pv r rv = v2_uploads e p pv r rv"
  by (simp add: v2_uploads_def cong: option.case_cong upload_result.case_cong)

lemma create_irrelevant_intake [simp]:
  "v2_intake (e\<lparr>create := cr\<rparr>) w req = v2_intake e w req"
  by (simp add: v2_intake_def
      cong: option.case_cong sum.case_cong step.case_cong prod.case_cong)

subsection \<open>Every early exit is a failure response\<close>

lemma getHttpStatus_not_201: "getHttpStatus err \<noteq> 201"
  by (simp add: getHttpStatus_def classifyDatabaseError_def Let_def)

lemma failure_db: "failure \<lparr>status = getHttpStatus err, body = createErrorResponse_db e err loc\<rparr>"
  by (simp add: failure_def getHttpStatus_not_201 createErrorResponse_db_def json_get_def Let_def)

lemma failure_createErrorResponse: "failure (createErrorResponse c m d)"
proof -
  have "status (createErrorResponse c m d) \<noteq> 201"
  proof (cases "map_of ErrorStatusCodes c")
    case None
    then show ?thesis by (simp add: createErrorResponse_def Let_def)
  next
    case (Some n)
    then have "(c, n) \<in> set ErrorStatusCodes" by (rule map_of_SomeD)
    then have "n \<in> {400, 401, 413, 500}" by (auto simp: ErrorStatusCodes_def)
    with Some show ?thesis by (auto simp: createErrorResponse_def Let_def)
  qed
  then show ?thesis by (simp add: failure_def createErrorResponse_def json_get_def Let_def)
qed

lemma failure_json_response:
  "st \<noteq> 201 \<Longrightarrow> failure (json_response st ((''success'', JBool False) # props))"
  by (simp add: failure_def json_response_def json_get_def)

lemma failure_v1_catch: "failure (v1_catch e err)"
  by (simp add: v1_catch_def failure_db failure_json_response)

lemma failure_v2_catch: "failure (v2_catch e err)"
  by (simp add: v2_catch_def failure_createErrorResponse)

lemma v1_files_Return: "v1_files e fd = Return resp \<Longrightarrow> failure resp"
  by (auto simp: v1_files_def Let_def failure_json_response split: if_splits form_value.splits)

lemma v1_uploads_Return: "v1_uploads e p r = Return resp \<Longrightarrow> failure resp"
  by (auto simp: v1_uploads_def Let_def failure_json_response split: upload_result.splits)

lemma v2_guards_Return: "v2_guards e req = Return resp \<Longrightarrow> failure resp"
  by (auto simp: v2_guards_def Let_def failure_createErrorResponse split: if_splits sum.splits)

lemma v2_files_Return: "v2_files e fd = Return resp \<Longrightarrow> failure resp"
  by (auto simp: v2_files_def Let_def failure_createErrorResponse split: if_splits form_value.splits)

lemma v2_uploads_Return: "v2_uploads e p pv r rv = Return resp \<Longrightarrow> failure resp"
  by (auto simp: v2_uploads_def Let_def failure_createErrorResponse
      split: upload_result.splits option.splits)

lemma v1_intake_facts:
  assumes "v1_intake e w req = (r, w1)"
  shows "applications w1 = applications w"
    and "r = Return resp \<Longrightarrow> failure resp"
    and "r = Next ctx \<Longrightarrow> formData req = Inr (v1_formData ctx)"
proof -
  obtain c w' where c: "connectDB e w = (c, w')" by (cases "connectDB e w")
  then have w': "applications w' = applications w"
    using connectDB_applications(1) [of e w] by simp
  show "applications w1 = applications w"
    using assms c w'
    by (auto simp: v1_intake_def split: sum.splits step.splits prod.splits)
  show "failure resp" if "r = Return resp"
    using assms c that
    by (auto simp: v1_intake_def failure_db split: sum.splits step.splits prod.splits
        dest: v1_files_Return v1_uploads_Return)
  show "formData req = Inr (v1_formData ctx)" if "r = Next ctx"
    using assms c that
    by (auto simp: v1_intake_def split: sum.splits step.splits prod.splits)
qed

lemma v2_intake_facts:
  assumes "v2_intake e w req = (r, w1)"
  shows "applications w1 = applications w"
    and "r = Return resp \<Longrightarrow> failure resp"
    and "r = Next ctx \<Longrightarrow> formData req = Inr (ctx_formData ctx)"
proof -
  obtain c w' where c: "connectDB e w = (c, w')" by (cases "connectDB e w")
  then have w': "applications w' = applications w"
    using connectDB_applications(1) [of e w] by simp
  show "applications w1 = applications w"
    using assms c w'
    by (auto simp: v2_intake_def split: sum.splits step.splits prod.splits)
  show "failure resp" if "r = Return resp"
    using assms c that
    by (auto simp: v2_intake_def split: sum.splits step.splits prod.splits
        dest: v2_guards_Return v2_files_Return v2_uploads_Return)
  show "formData req = Inr (ctx_formData ctx)" if "r = Next ctx"
    using assms c that
    by (auto simp: v2_intake_def split: sum.splits step.splits prod.splits)
qed

subsection \<open>An email address that is already stored\<close>

lemma mongoose_save_email:
  "mongoose_save vs ids t apps d = Inr app \<Longrightarrow> emailAddress d = Text m
   \<Longrightarrow> app_emailAddress app = normalize_email m"
  by (auto simp: mongoose_save_def required_text_def normalize_email_def
      split: sum.splits if_splits prod.splits)

lemma applicationData_email [simp]:
  "emailAddress (applicationData_of e fd pu ru) = formData_get fd ''emailAddress''"
  by (simp add: applicationData_of_def)

lemma find_append_last: "P x \<Longrightarrow> find P (xs @ [x]) \<noteq> None"
  by (auto simp: find_None_iff)

lemma v1_persist_duplicate:
  assumes "findOne e = mongoose_findOne"
    and "formData_get (v1_formData ctx) ''emailAddress'' = Text m"
    and "find (\<lambda>a. app_emailAddress a = normalize_email m) (applications w) \<noteq> None"
  shows "v1_persist e w ctx
         = (Return (json_response 409
              [(''success'', JBool False),
               (''message'', JString ''An application with this email address already exists'')]), w)"
  using assms by (auto simp: v1_persist_def Let_def mongoose_findOne_def)

lemma v2_persist_duplicate:
  assumes "findOne e = mongoose_findOne"
    and "formData_get (ctx_formData ctx) ''emailAddress'' = Text m"
    and "find (\<lambda>a. app_emailAddress a = normalize_email m) (applications w) \<noteq> None"
  shows "v2_persist e w req ctx
         = (Return (createErrorResponse ''VALIDATION_FAILED''
                      (Some ''Application with this email already exists'') None), w)"
  using assms by (auto simp: v2_persist_def Let_def mongoose_findOne_def)

lemma POST_v1_duplicate:
  assumes fo: "findOne e = mongoose_findOne"
    and f: "formData req = Inr fd" and em: "formData_get fd ''emailAddress'' = Text m"
    and ex: "find (\<lambda>a. app_emailAddress a = normalize_email m) (applications w) \<noteq> None"
  shows "applications (snd (POST_v1 e w req)) = applications w"
    and "failure (fst (POST_v1 e w req))"
    and "v1_intake e w req = (Next ctx, w1) \<Longrightarrow>
         fst (POST_v1 e w req)
         = json_response 409
             [(''success'', JBool False),
              (''message'', JString ''An application with this email address already exists'')]"
proof -
  obtain r w' where i: "v1_intake e w req = (r, w')" by (cases "v1_intake e w req")
  note facts = v1_intake_facts [OF i]
  have dup: "v1_persist e w' c
         = (Return (json_response 409
              [(''success'', JBool False),
               (''message'', JString ''An application with this email address already exists'')]), w')"
    if "r = Next c" for c
  proof -
    from facts(3) [OF that] f have "v1_formData c = fd" by simp
    with em have a: "formData_get (v1_formData c) ''emailAddress'' = Text m" by simp
    from ex facts(1) have b: "find (\<lambda>a. app_emailAddress a = normalize_email m) (applications w') \<noteq> None"
      by simp
    show ?thesis by (rule v1_persist_duplicate [OF fo a b])
  qed
  show "applications (snd (POST_v1 e w req)) = applications w"
    using i facts(1) dup by (cases r) (simp_all add: POST_v1_def finish_def)
  show "failure (fst (POST_v1 e w req))"
    using i facts(2) dup
    by (cases r) (simp_all add: POST_v1_def finish_def failure_v1_catch failure_json_response)
  show "fst (POST_v1 e w req)
         = json_response 409
             [(''success'', JBool False),
              (''message'', JString ''An application with this email address already exists'')]"
    if "v1_intake e w req = (Next ctx, w1)"
    using that i dup by (simp add: POST_v1_def finish_def)
qed

lemma POST_v2_duplicate:
  assumes fo: "findOne e = mongoose_findOne"
    and f: "formData req = Inr fd" and em: "formData_get fd ''emailAddress'' = Text m"
    and ex: "find (\<lambda>a. app_emailAddress a = normalize_email m) (applications w) \<noteq> None"
  shows "applications (snd (POST_v2 e w req)) = applications w"
    and "failure (fst (POST_v2 e w req))"
    and "v2_intake e w req = (Next ctx, w1) \<Longrightarrow>
         fst (POST_v2 e w req)
         = createErrorResponse ''VALIDATION_FAILED''
             (Some ''Application with this email already exists'') None"
proof -
  obtain r w' where i: "v2_intake e w req = (r, w')" by (cases "v2_intake e w req")
  note facts = v2_intake_facts [OF i]
  have dup: "v2_persist e w' req c
         = (Return (createErrorResponse ''VALIDATION_FAILED''
                      (Some ''Application with this email already exists'') None), w')"
    if "r = Next c" for c
  proof -
    from facts(3) [OF that] f have "ctx_formData c = fd" by simp
    with em have a: "formData_get (ctx_formData c) ''emailAddress'' = Text m" by simp
    from ex facts(1) have b: "find (\<lambda>a. app_emailAddress a = normalize_email m) (applications w') \<noteq> None"
      by simp
    show ?thesis by (rule v2_persist_duplicate [OF fo a b])
  qed
  show "applications (snd (POST_v2 e w req)) = applications w"
    using i facts(1) dup by (cases r) (simp_all add: POST_v2_def finish_def)
  show "failure (fst (POST_v2 e w req))"
    using i facts(2) dup
    by (cases r) (simp_all add: POST_v2_def finish_def failure_v2_catch failure_createErrorResponse)
  show "fst (POST_v2 e w req)
         = createErrorResponse ''VALIDATION_FAILED''
             (Some ''Application with this email already exists'') None"
    if "v2_intake e w req = (Next ctx, w1)"
    using that i dup by (simp add: POST_v2_def finish_def)
qed

lemma v1_persist_201:
  assumes "save e = mongoose_save vs ids t"
    and "formData_get (v1_formData ctx) ''emailAddress'' = Text m"
    and "\<not> failure (fst (finish (v1_catch e) (v1_persist e w ctx)))"
  shows "find (\<lambda>a. app_emailAddress a = normalize_email m)
           (applications (snd (finish (v1_catch e) (v1_persist e w ctx)))) \<noteq> None"
  using assms
  by (auto simp: v1_persist_def Let_def finish_def failure_v1_catch failure_json_response
      failure_db find_None_iff
      split: sum.splits option.splits dest!: mongoose_save_email)

lemma v2_persist_201:
  assumes "save e = mongoose_save vs ids t"
    and "formData_get (ctx_formData ctx) ''emailAddress'' = Text m"
    and "\<not> failure (fst (finish (v2_catch e) (v2_persist e w req ctx)))"
  shows "find (\<lambda>a. app_emailAddress a = normalize_email m)
           (applications (snd (finish (v2_catch e) (v2_persist e w req ctx)))) \<noteq> None"
  using assms
  by (auto simp: v2_persist_def Let_def finish_def failure_v2_catch failure_createErrorResponse
      find_None_iff
      split: sum.splits option.splits prod.splits dest!: mongoose_save_email)

lemma POST_v1_accepted:
  assumes sv: "save e = mongoose_save vs ids t"
    and f: "formData req = Inr fd" and em: "formData_get fd ''emailAddress'' = Text m"
    and ok: "status (fst (POST_v1 e w req)) = 201"
  shows "find (\<lambda>a. app_emailAddress a = normalize_email m) (applications (snd (POST_v1 e w req))) \<noteq> None"
proof -
  obtain r w' where i: "v1_intake e w req = (r, w')" by (cases "v1_intake e w req")
  note facts = v1_intake_facts [OF i]
  from ok have nf: "\<not> failure (fst (POST_v1 e w req))" by (simp add: failure_def)
  show ?thesis
  proof (cases r)
    case (Next c)
    with facts(3) f have "v1_formData c = fd" by simp
    with em have e': "formData_get (v1_formData c) ''emailAddress'' = Text m" by simp
    from Next i have p: "POST_v1 e w req = finish (v1_catch e) (v1_persist e w' c)"
      by (simp add: POST_v1_def)
    with nf have "\<not> failure (fst (finish (v1_catch e) (v1_persist e w' c)))" by simp
    from v1_persist_201 [OF sv e' this] p show ?thesis by simp
  next
    case (Return resp)
    with i facts(2) nf show ?thesis by (simp add: POST_v1_def finish_def)
  next
    case (Throw err)
    with i nf show ?thesis by (simp add: POST_v1_def finish_def failure_v1_catch)
  qed
qed

lemma POST_v2_accepted:
  assumes sv: "save e = mongoose_save vs ids t"
    and f: "formData req = Inr fd" and em: "formData_get fd ''emailAddress'' = Text m"
    and ok: "status (fst (POST_v2 e w req)) = 201"
  shows "find (\<lambda>a. app_emailAddress a = normalize_email m) (applications (snd (POST_v2 e w req))) \<noteq> None"
proof -
  obtain r w' where i: "v2_intake e w req = (r, w')" by (cases "v2_intake e w req")
  note facts = v2_intake_facts [OF i]
  from ok have nf: "\<not> failure (fst (POST_v2 e w req))" by (simp add: failure_def)
  show ?thesis
  proof (cases r)
    case (Next c)
    with facts(3) f have "ctx_formData c = fd" by simp
    with em have e': "formData_get (ctx_formData c) ''emailAddress'' = Text m" by simp
    from Next i have p: "POST_v2 e w req = finish (v2_catch e) (v2_persist e w' req c)"
      by (simp add: POST_v2_def)
    with nf have "\<not> failure (fst (finish (v2_catch e) (v2_persist e w' req c)))" by simp
    from v2_persist_201 [OF sv e' this] p show ?thesis by simp
  next
    case (Return resp)
    with i facts(2) nf show ?thesis by (simp add: POST_v2_def finish_def)
  next
    case (Throw err)
    with i nf show ?thesis by (simp add: POST_v2_def finish_def failure_v2_catch)
  qed
qed

subsection \<open>The sample submission, stage by stage\<close>

lemma sample_v2_guards: "v2_guards (sample_env mc uu cr) (sample_request m) = Next ()"
  by (simp add: v2_guards_def validateContentType_def validateOrigin_def sample_env_def
      sample_request_def headers_get_def or_default_def truthy_def str_includes_def Let_def)

lemma sample_connectDB:
  "connectDB (sample_env sample_connect uu cr) sample_world
   = (Inr (Connection 0),
      sample_world\<lparr>connectAttempts := 1,
        cached := \<lparr>conn = Some (Connection 0), promise = Some (Inr (Connection 0))\<rparr>\<rparr>)"
  by (simp add: connectDB_def sample_env_def sample_world_def sample_connect_def Let_def)

lemma connectDB_cached: "conn (cached w) = Some c \<Longrightarrow> connectDB e w = (Inr c, w)"
  by (simp add: connectDB_def)

lemma sample_form_get:
  "formData_get (sample_form m) ''photograph'' = File sample_photograph"
  "formData_get (sample_form m) ''resume'' = File sample_resume"
  "formData_get (sample_form m) ''emailAddress'' = Text m"
  by (simp_all add: formData_get_def sample_form_def)

lemma sample_v1_files: "v1_files e (sample_form m) = Next (sample_photograph, sample_resume)"
  by (simp add: v1_files_def sample_form_get truthy_value_def Let_def)
     (simp add: sample_photograph_def sample_resume_def file_size_def)

lemma sample_validateFile:
  "validateFile (File sample_photograph) ''IMAGE''
     = \<lparr>valid = True, error = None, sanitizedName = Some ''ada.jpg'',
        buffer = Some (arrayBuffer sample_photograph)\<rparr>"
  "validateFile (File sample_resume) ''PDF''
     = \<lparr>valid = True, error = None, sanitizedName = Some ''ada.pdf'',
        buffer = Some (arrayBuffer sample_resume)\<rparr>"
  by (simp_all add: validateFile_def sample_photograph_def sample_resume_def
      containsExternalUrl_def urlPattern_test_def toUpperCase_char_def alphabet_defs
      validateMimeType_def ALLOWED_MIME_TYPES_def validateFileSize_def FILE_SIZE_LIMITS_def
      file_size_def validateFileSignature_def FILE_SIGNATURES_def signature_every_def
      uint8_at_def arrayBuffer_def sanitizeFilename_def replace_unsafe_def safe_char_def ok_def)

lemma sample_validateFormData:
  "\<not> urlPattern_test m \<Longrightarrow> validateFormData (sample_form m) = ok"
  by (simp add: sample_form_def containsExternalUrl_def urlPattern_test_def
      toUpperCase_char_def alphabet_defs)

lemma sample_v2_files:
  "\<not> urlPattern_test m \<Longrightarrow>
   v2_files e (sample_form m)
   = Next (sample_photograph, validateFile (File sample_photograph) ''IMAGE'',
           sample_resume, validateFile (File sample_resume) ''PDF'')"
  by (simp add: v2_files_def sample_validateFormData sample_form_get truthy_value_def Let_def)
     (simp add: sample_validateFile)

lemma sample_uploads_ok:
  "uploadToCloudinary (sample_env mc sample_uploader cr) d fld rt
     = UploadOk (''https://res.cloudinary.com/sample/'' @ fld @ ''/f1'') (fld @ ''/f1'')"
  by (simp add: uploadToCloudinary_def sample_env_def sample_uploader_def)

lemma raw_failing_uploads:
  "uploadToCloudinary (sample_env mc raw_failing_uploader cr) d fld ''image''
     = UploadOk (''https://res.cloudinary.com/sample/'' @ fld @ ''/f1'') (fld @ ''/f1'')"
  "uploadToCloudinary (sample_env mc raw_failing_uploader cr) d fld ''raw''
     = UploadFailed ''Upload timed out''"
  by (simp_all add: uploadToCloudinary_def sample_env_def raw_failing_uploader_def
      sample_uploader_def Error_def)

lemma sample_folder_prefix:
  "or_default (CLOUDINARY_FOLDER_PREFIX (process_env (sample_env mc uu cr))) ''uploads'' = ''uploads''"
  by (simp add: sample_env_def or_default_def)

lemma sample_email_not_url:
  "\<not> urlPattern_test ''ada@example.com''" "\<not> urlPattern_test '' Ada@Example.COM ''"
  by (simp_all add: urlPattern_test_def toUpperCase_char_def alphabet_defs)

lemma sample_env_create: "(sample_env mc uu cr0)\<lparr>create := cr\<rparr> = sample_env mc uu cr"
  by (simp add: sample_env_def)

lemma sample_v2_uploads:
  "v2_uploads (sample_env mc sample_uploader cr) sample_photograph
      (validateFile (File sample_photograph) ''IMAGE'')
      sample_resume (validateFile (File sample_resume) ''PDF'')
   = Next ((''https://res.cloudinary.com/sample/uploads/applications/photographs/f1'',
            ''uploads/applications/photographs/f1''),
           (''https://res.cloudinary.com/sample/uploads/applications/resumes/f1'',
            ''uploads/applications/resumes/f1''))"
  by (simp add: v2_uploads_def sample_validateFile sample_folder_prefix sample_uploads_ok Let_def)

lemma sample_request_formData: "formData (sample_request m) = Inr (sample_form m)"
  by (simp add: sample_request_def)

lemma sample_v2_intake:
  assumes "\<not> urlPattern_test m" and "connectDB (sample_env mc sample_uploader cr) w = (Inr c, w1)"
  shows "v2_intake (sample_env mc sample_uploader cr) w (sample_request m) = (Next (sample_ctx m), w1)"
  using assms
  by (simp add: v2_intake_def sample_v2_guards sample_v2_files sample_v2_uploads sample_ctx_def
      sample_request_formData)

lemma sample_trim:
  "trim ''Ada Lovelace'' = ''Ada Lovelace''" "trim ''Analyst'' = ''Analyst''"
  "trim ''ada@example.com'' = ''ada@example.com''"
  "trim '' Ada@Example.COM '' = ''Ada@Example.COM''"
  by (simp_all add: trim_def js_space_def)

lemma sample_normalize:
  "normalize_email ''ada@example.com'' = ''ada@example.com''"
  "normalize_email '' Ada@Example.COM '' = ''ada@example.com''"
  by (simp_all add: normalize_email_def sample_trim toLowerCase_def toLowerCase_char_def alphabet_defs)

text \<open>
  The setters fold the capitals outside ASCII too: an address written with \<open>0xC4\<close>
  (A with diaeresis) is stored, and looked up, with \<open>0xE4\<close>.
\<close>

lemma normalize_email_latin1:
  "normalize_email (CHR 0xC4 # ''DA@EXAMPLE.COM'') = CHR 0xE4 # ''da@example.com''"
  "normalize_email (CHR 0xE4 # ''da@example.com'') = CHR 0xE4 # ''da@example.com''"
  by (simp_all add: normalize_email_def trim_def js_space_def toLowerCase_def
      toLowerCase_char_def alphabet_defs)

lemma sample_save:
  "save (sample_env mc uu cr) [] (applicationData_of (sample_env mc uu cr) (sample_form ''ada@example.com'') pu ru)
   = Inr \<lparr>app_id = ''id0'', app_fullName = ''Ada Lovelace'',
          app_emailAddress = ''ada@example.com'', app_roleAppliedFor = ''Analyst'',
          app_submittedAt = ''2026-01-01T00:00:00.000Z''\<rparr>"
  using sample_normalize(1)
  by (simp add: sample_env_def mongoose_save_def applicationData_of_def formData_get_def
      sample_form_def required_text_def sample_trim normalize_email_def sample_id_def
      digit_char_def ascii_digits_def)

lemma v2_persist_saved:
  assumes "findOne e (applications w) (formData_get (ctx_formData ctx) ''emailAddress'') = Inr None"
    and "save e (applications w)
           (applicationData_of e (ctx_formData ctx)
              (fst (ctx_photographUpload ctx)) (fst (ctx_resumeUpload ctx))) = Inr app"
  shows "fst (v2_persist e w req ctx)
         = Return (createSuccessResponse
             (JObject [(''applicationId'', JString (app_id app)),
                       (''fullName'', JString (app_fullName app)),
                       (''email'', JString (app_emailAddress app)),
                       (''role'', JString (app_roleAppliedFor app)),
                       (''submittedAt'', JString (app_submittedAt app))]) 201)"
    and "applications (snd (v2_persist e w req ctx)) = applications w @ [app]"
    and "cached (snd (v2_persist e w req ctx)) = cached w"
  using assms by (simp_all add: v2_persist_def Let_def split: prod.splits)

lemma sample_v1_uploads:
  "v1_uploads (sample_env mc sample_uploader cr) sample_photograph sample_resume
   = Next ((''https://res.cloudinary.com/sample/socialmm/applications/photographs/f1'',
            ''socialmm/applications/photographs/f1''),
           (''https://res.cloudinary.com/sample/socialmm/applications/resumes/f1'',
            ''socialmm/applications/resumes/f1''))"
  by (simp add: v1_uploads_def sample_uploads_ok Let_def)

lemma sample_v1_intake:
  assumes "connectDB (sample_env mc sample_uploader cr) w = (Inr c, w1)"
  shows "\<exists>ctx. v1_intake (sample_env mc sample_uploader cr) w (sample_request m) = (Next ctx, w1)"
  using assms
  by (simp add: v1_intake_def sample_v1_files sample_v1_uploads sample_request_formData)

lemma sample_first_submission:
  "status (fst (POST_v2 (sample_env sample_connect sample_uploader sample_create) sample_world
                  (sample_request ''ada@example.com''))) = 201"
  "conn (cached (snd (POST_v2 (sample_env sample_connect sample_uploader sample_create)
                  sample_world (sample_request ''ada@example.com'')))) = Some (Connection 0)"
proof -
  let ?e = "sample_env sample_connect sample_uploader sample_create"
  let ?req = "sample_request ''ada@example.com''"
  let ?w1 = "sample_world\<lparr>connectAttempts := 1,
        cached := \<lparr>conn = Some (Connection 0), promise = Some (Inr (Connection 0))\<rparr>\<rparr>"
  let ?ctx = "sample_ctx ''ada@example.com''"
  have i: "v2_intake ?e sample_world ?req = (Next ?ctx, ?w1)"
    by (rule sample_v2_intake [OF sample_email_not_url(1) sample_connectDB])
  have f: "findOne ?e (applications ?w1) (formData_get (ctx_formData ?ctx) ''emailAddress'') = Inr None"
    by (simp add: sample_world_def sample_env_def mongoose_findOne_def sample_ctx_def sample_form_get)
  have s: "save ?e (applications ?w1)
      (applicationData_of ?e (ctx_formData ?ctx) (fst (ctx_photographUpload ?ctx))
         (fst (ctx_resumeUpload ?ctx)))
      = Inr \<lparr>app_id = ''id0'', app_fullName = ''Ada Lovelace'',
          app_emailAddress = ''ada@example.com'', app_roleAppliedFor = ''Analyst'',
          app_submittedAt = ''2026-01-01T00:00:00.000Z''\<rparr>"
    by (simp add: sample_world_def sample_ctx_def sample_save)
  note p = v2_persist_saved [OF f s, of ?req]
  obtain r w2 where q: "v2_persist ?e ?w1 ?req ?ctx = (r, w2)" by (cases "v2_persist ?e ?w1 ?req ?ctx")
  with p i show "status (fst (POST_v2 ?e sample_world ?req)) = 201"
    by (simp add: POST_v2_def finish_def createSuccessResponse_def)
  from q p i show "conn (cached (snd (POST_v2 ?e sample_world ?req))) = Some (Connection 0)"
    by (simp add: POST_v2_def finish_def)
qed

subsection \<open>A failed resume upload\<close>

text \<open>
  C7. In both pipelines, when the pipeline has reached the uploads (the steps before them
  pass), the photograph upload succeeds and the resume upload returns \<open>success: false\<close>,
  the response is the failure response for the resume (HTTP 500), the applications
  collection is unchanged, and the outcome is the same whatever \<open>save\<close> would do: no save
  of an application is attempted.
\<close>

theorem resume_upload_failure:
  "(connectDB e w = (Inr cn, w1) \<and> formData req = Inr fd \<and> v1_files e fd = Next (p, r)
      \<and> uploadToCloudinary e (base64_uri (file_type p) (arrayBuffer p))
            ''socialmm/applications/photographs'' ''image'' = UploadOk u i
      \<and> uploadToCloudinary e (base64_uri (file_type r) (arrayBuffer r))
            ''socialmm/applications/resumes'' ''raw'' = UploadFailed m
    \<longrightarrow> fst (POST_v1 e w req)
          = json_response 500 [(''success'', JBool False),
                               (''message'', JString ''Failed to upload resume''),
                               (''error'', JString m)]
        \<and> applications (snd (POST_v1 e w req)) = applications w
        \<and> (\<forall>sv. POST_v1 (e\<lparr>save := sv\<rparr>) w req = POST_v1 e w req))
   \<and> (v2_guards e req = Next () \<and> connectDB e w = (Inr cn, w1) \<and> formData req = Inr fd
      \<and> v2_files e fd = Next (p, pv, r, rv)
      \<and> uploadToCloudinary e (base64_uri (file_type p) (arrayBuffer p))
            (or_default (CLOUDINARY_FOLDER_PREFIX (process_env e)) ''uploads''
             @ ''/applications/photographs'') ''image'' = UploadOk u i
      \<and> uploadToCloudinary e (base64_uri (file_type r) (arrayBuffer r))
            (or_default (CLOUDINARY_FOLDER_PREFIX (process_env e)) ''uploads''
             @ ''/applications/resumes'') ''raw'' = UploadFailed m
    \<longrightarrow> fst (POST_v2 e w req)
          = createErrorResponse ''CLOUDINARY_UPLOAD_FAILED'' (Some ''Failed to upload resume'')
              (Some (JObject [(''cloudinaryError'', JString m)]))
        \<and> status (fst (POST_v2 e w req)) = 500
        \<and> applications (snd (POST_v2 e w req)) = applications w
        \<and> fileUploads (snd (POST_v2 e w req)) = fileUploads w
        \<and> (\<forall>sv. POST_v2 (e\<lparr>save := sv\<rparr>) w req = POST_v2 e w req))"
proof (intro conjI impI)
  assume h: "connectDB e w = (Inr cn, w1) \<and> formData req = Inr fd \<and> v1_files e fd = Next (p, r)
      \<and> uploadToCloudinary e (base64_uri (file_type p) (arrayBuffer p))
            ''socialmm/applications/photographs'' ''image'' = UploadOk u i
      \<and> uploadToCloudinary e (base64_uri (file_type r) (arrayBuffer r))
            ''socialmm/applications/resumes'' ''raw'' = UploadFailed m"
  then have up: "v1_uploads e p r = Return (json_response 500 [(''success'', JBool False),
                               (''message'', JString ''Failed to upload resume''),
                               (''error'', JString m)])"
    by (simp add: v1_uploads_def Let_def)
  with h have intake: "v1_intake e w req = (Return (json_response 500 [(''success'', JBool False),
                               (''message'', JString ''Failed to upload resume''),
                               (''error'', JString m)]), w1)"
    by (simp add: v1_intake_def)
  then have post: "POST_v1 e w req = (json_response 500 [(''success'', JBool False),
                               (''message'', JString ''Failed to upload resume''),
                               (''error'', JString m)], w1)"
    by (simp add: POST_v1_def finish_def)
  from h have w1: "applications w1 = applications w"
    using connectDB_applications(1) [of e w] by simp
  show "fst (POST_v1 e w req) = json_response 500 [(''success'', JBool False),
                               (''message'', JString ''Failed to upload resume''),
                               (''error'', JString m)]"
    using post by simp
  show "applications (snd (POST_v1 e w req)) = applications w"
    using post w1 by simp
  show "\<forall>sv. POST_v1 (e\<lparr>save := sv\<rparr>) w req = POST_v1 e w req"
    using intake by (simp add: POST_v1_def)
next
  assume h: "v2_guards e req = Next () \<and> connectDB e w = (Inr cn, w1) \<and> formData req = Inr fd
      \<and> v2_files e fd = Next (p, pv, r, rv)
      \<and> uploadToCloudinary e (base64_uri (file_type p) (arrayBuffer p))
            (or_default (CLOUDINARY_FOLDER_PREFIX (process_env e)) ''uploads''
             @ ''/applications/photographs'') ''image'' = UploadOk u i
      \<and> uploadToCloudinary e (base64_uri (file_type r) (arrayBuffer r))
            (or_default (CLOUDINARY_FOLDER_PREFIX (process_env e)) ''uploads''
             @ ''/applications/resumes'') ''raw'' = UploadFailed m"
  let ?resp = "createErrorResponse ''CLOUDINARY_UPLOAD_FAILED'' (Some ''Failed to upload resume'')
              (Some (JObject [(''cloudinaryError'', JString m)]))"
  from h have bufs: "buffer pv = Some (arrayBuffer p)" "buffer rv = Some (arrayBuffer r)"
    using v2_files_buffers [of e fd p pv r rv] by simp_all
  with h have up: "v2_uploads e p pv r rv = Return ?resp"
    by (simp add: v2_uploads_def Let_def)
  with h have intake: "v2_intake e w req = (Return ?resp, w1)"
    by (simp add: v2_intake_def)
  then have post: "POST_v2 e w req = (?resp, w1)"
    by (simp add: POST_v2_def finish_def)
  from h have w1: "applications w1 = applications w" "fileUploads w1 = fileUploads w"
    using connectDB_applications [of e w] by simp_all
  show "fst (POST_v2 e w req) = ?resp" using post by simp
  show "status (fst (POST_v2 e w req)) = 500"
    using post by (simp add: createErrorResponse_def ErrorStatusCodes_def Let_def)
  show "applications (snd (POST_v2 e w req)) = applications w" using post w1 by simp
  show "fileUploads (snd (POST_v2 e w req)) = fileUploads w" using post w1 by simp
  show "\<forall>sv. POST_v2 (e\<lparr>save := sv\<rparr>) w req = POST_v2 e w req"
    using intake by (simp add: POST_v2_def)
qed

theorem resume_upload_failure_witness:
  "fst (POST_v1 (sample_env sample_connect raw_failing_uploader sample_create) sample_world
          (sample_request ''ada@example.com''))
     = json_response 500 [(''success'', JBool False),
                          (''message'', JString ''Failed to upload resume''),
                          (''error'', JString ''Upload timed out'')]
   \<and> applications (snd (POST_v1 (sample_env sample_connect raw_failing_uploader sample_create)
                          sample_world (sample_request ''ada@example.com''))) = []
   \<and> status (fst (POST_v2 (sample_env sample_connect raw_failing_uploader sample_create)
                    sample_world (sample_request ''ada@example.com''))) = 500
   \<and> applications (snd (POST_v2 (sample_env sample_connect raw_failing_uploader sample_create)
                          sample_world (sample_request ''ada@example.com''))) = []"
proof -
  let ?e = "sample_env sample_connect raw_failing_uploader sample_create"
  let ?req = "sample_request ''ada@example.com''"
  let ?fd = "sample_form ''ada@example.com''"
  let ?w1 = "sample_world\<lparr>connectAttempts := 1,
        cached := \<lparr>conn = Some (Connection 0), promise = Some (Inr (Connection 0))\<rparr>\<rparr>"
  have c: "connectDB ?e sample_world = (Inr (Connection 0), ?w1)" by (rule sample_connectDB)
  have f: "formData ?req = Inr ?fd" by (simp add: sample_request_def)
  have f1: "v1_files ?e ?fd = Next (sample_photograph, sample_resume)" by (rule sample_v1_files)
  have f2: "v2_files ?e ?fd = Next (sample_photograph, validateFile (File sample_photograph) ''IMAGE'',
           sample_resume, validateFile (File sample_resume) ''PDF'')"
    by (rule sample_v2_files) (rule sample_email_not_url)
  have g: "v2_guards ?e ?req = Next ()" by (rule sample_v2_guards)
  note t1 = resume_upload_failure [of ?e sample_world "Connection 0" ?w1 ?req ?fd
      sample_photograph sample_resume
      "''https://res.cloudinary.com/sample/socialmm/applications/photographs/f1''"
      "''socialmm/applications/photographs/f1''" "''Upload timed out''"
      "validateFile (File sample_photograph) ''IMAGE''" "validateFile (File sample_resume) ''PDF''"]
  note t2 = resume_upload_failure [of ?e sample_world "Connection 0" ?w1 ?req ?fd
      sample_photograph sample_resume
      "''https://res.cloudinary.com/sample/uploads/applications/photographs/f1''"
      "''uploads/applications/photographs/f1''" "''Upload timed out''"
      "validateFile (File sample_photograph) ''IMAGE''" "validateFile (File sample_resume) ''PDF''"]
  have apps: "applications sample_world = []" by (simp add: sample_world_def)
  from t1 c f f1 have v1: "fst (POST_v1 ?e sample_world ?req)
     = json_response 500 [(''success'', JBool False),
                          (''message'', JString ''Failed to upload resume''),
                          (''error'', JString ''Upload timed out'')]
     \<and> applications (snd (POST_v1 ?e sample_world ?req)) = []"
    by (simp add: raw_failing_uploads apps)
  from t2 c f f2 g have v2: "status (fst (POST_v2 ?e sample_world ?req)) = 500
     \<and> applications (snd (POST_v2 ?e sample_world ?req)) = []"
    by (simp add: raw_failing_uploads sample_folder_prefix apps
        createErrorResponse_def ErrorStatusCodes_def Let_def)
  from v1 v2 show ?thesis by simp
qed

subsection \<open>Failed writes of the file records\<close>

text \<open>
  C8. In the second pipeline, once the application record has been written (steps 1 to 9
  passed, no duplicate was found and \<open>save\<close> returned the saved application), the response is
  the success response with HTTP 201 and the id of the saved application, whatever
  \<open>FileUpload.create\<close> does, in particular when it throws: a failure to write the
  file records never changes the outcome the user sees.
\<close>

theorem file_record_failure_ignored:
  assumes "v2_intake e w req = (Next ctx, w1)"
    and "findOne e (applications w1) (formData_get (ctx_formData ctx) ''emailAddress'') = Inr None"
    and "save e (applications w1)
           (applicationData_of e (ctx_formData ctx)
              (fst (ctx_photographUpload ctx)) (fst (ctx_resumeUpload ctx))) = Inr app"
  shows "fst (POST_v2 (e\<lparr>create := cr\<rparr>) w req)
         = createSuccessResponse
             (JObject [(''applicationId'', JString (app_id app)),
                       (''fullName'', JString (app_fullName app)),
                       (''email'', JString (app_emailAddress app)),
                       (''role'', JString (app_roleAppliedFor app)),
                       (''submittedAt'', JString (app_submittedAt app))]) 201
       \<and> status (fst (POST_v2 (e\<lparr>create := cr\<rparr>) w req)) = 201
       \<and> json_get (body (fst (POST_v2 (e\<lparr>create := cr\<rparr>) w req))) ''success'' = Some (JBool True)
       \<and> applications (snd (POST_v2 (e\<lparr>create := cr\<rparr>) w req)) = applications w1 @ [app]"
proof -
  let ?e = "e\<lparr>create := cr\<rparr>"
  let ?resp = "createSuccessResponse
             (JObject [(''applicationId'', JString (app_id app)),
                       (''fullName'', JString (app_fullName app)),
                       (''email'', JString (app_emailAddress app)),
                       (''role'', JString (app_roleAppliedFor app)),
                       (''submittedAt'', JString (app_submittedAt app))]) 201"
  have "fst (v2_persist ?e w1 req ctx) = Return ?resp
      \<and> applications (snd (v2_persist ?e w1 req ctx)) = applications w1 @ [app]"
    using assms(2,3) by (simp add: v2_persist_def Let_def split: prod.splits)
  then have "fst (POST_v2 ?e w req) = ?resp
      \<and> applications (snd (POST_v2 ?e w req)) = applications w1 @ [app]"
    using assms(1) by (cases "v2_persist ?e w1 req ctx") (simp add: POST_v2_def finish_def)
  then show ?thesis
    by (simp add: createSuccessResponse_def json_get_def)
qed

theorem file_record_failure_ignored_witness:
  "status (fst (POST_v2 (sample_env sample_connect sample_uploader throwing_create) sample_world
                  (sample_request ''ada@example.com''))) = 201
   \<and> json_get (body (fst (POST_v2 (sample_env sample_connect sample_uploader throwing_create)
                  sample_world (sample_request ''ada@example.com'')))) ''success'' = Some (JBool True)
   \<and> fst (POST_v2 (sample_env sample_connect sample_uploader throwing_create) sample_world
             (sample_request ''ada@example.com''))
     = fst (POST_v2 (sample_env sample_connect sample_uploader sample_create) sample_world
             (sample_request ''ada@example.com''))"
proof -
  let ?e = "sample_env sample_connect sample_uploader sample_create"
  let ?req = "sample_request ''ada@example.com''"
  let ?w1 = "sample_world\<lparr>connectAttempts := 1,
        cached := \<lparr>conn = Some (Connection 0), promise = Some (Inr (Connection 0))\<rparr>\<rparr>"
  let ?app = "\<lparr>app_id = ''id0'', app_fullName = ''Ada Lovelace'',
          app_emailAddress = ''ada@example.com'', app_roleAppliedFor = ''Analyst'',
          app_submittedAt = ''2026-01-01T00:00:00.000Z''\<rparr>"
  have i: "v2_intake ?e sample_world ?req = (Next (sample_ctx ''ada@example.com''), ?w1)"
    by (rule sample_v2_intake [OF sample_email_not_url(1) sample_connectDB])
  have apps: "applications ?w1 = []" by (simp add: sample_world_def)
  have f: "findOne ?e (applications ?w1)
      (formData_get (ctx_formData (sample_ctx ''ada@example.com'')) ''emailAddress'') = Inr None"
    by (simp add: sample_world_def sample_env_def mongoose_findOne_def sample_ctx_def sample_form_get)
  have s: "save ?e (applications ?w1)
      (applicationData_of ?e (ctx_formData (sample_ctx ''ada@example.com''))
         (fst (ctx_photographUpload (sample_ctx ''ada@example.com'')))
         (fst (ctx_resumeUpload (sample_ctx ''ada@example.com'')))) = Inr ?app"
    by (simp add: sample_world_def sample_ctx_def sample_save)
  note t1 = file_record_failure_ignored [OF i f s, of throwing_create]
  note t2 = file_record_failure_ignored [OF i f s, of sample_create]
  from t1 t2 show ?thesis
    by (simp add: sample_env_create createSuccessResponse_def json_get_def)
qed

subsection \<open>Two submissions with the same email address\<close>

text \<open>
  C1 (as amended). Take two submissions whose email addresses are equal after trimming and
  lower-casing, the first accepted with HTTP 201 by either pipeline, over the applications
  collection of models/Application.js. The second submission, to either pipeline, creates
  no second application record and is answered with a failure response; when it gets as far
  as the duplicate check (the steps before it pass), the answer is the duplicate-email
  response: HTTP 409 from the first pipeline, HTTP 400 with error \<open>VALIDATION_FAILED\<close> from
  the second.
\<close>

theorem duplicate_email_rejected:
  assumes "first \<in> {POST_v1, POST_v2}"
    and "save e1 = mongoose_save validators new_id t"
    and "findOne e2 = mongoose_findOne"
    and "formData req1 = Inr fd1" and "formData_get fd1 ''emailAddress'' = Text m1"
    and "formData req2 = Inr fd2" and "formData_get fd2 ''emailAddress'' = Text m2"
    and "normalize_email m1 = normalize_email m2"
    and "first e1 w0 req1 = (resp1, w1)" and "status resp1 = 201"
  shows "applications (snd (POST_v1 e2 w1 req2)) = applications w1
       \<and> status (fst (POST_v1 e2 w1 req2)) \<noteq> 201
       \<and> json_get (body (fst (POST_v1 e2 w1 req2))) ''success'' = Some (JBool False)
       \<and> (v1_intake e2 w1 req2 = (Next ctx1, w2) \<longrightarrow>
            fst (POST_v1 e2 w1 req2)
            = \<lparr>status = 409,
               body = JObject [(''success'', JBool False),
                               (''message'', JString
                                  ''An application with this email address already exists'')]\<rparr>)
       \<and> applications (snd (POST_v2 e2 w1 req2)) = applications w1
       \<and> status (fst (POST_v2 e2 w1 req2)) \<noteq> 201
       \<and> json_get (body (fst (POST_v2 e2 w1 req2))) ''success'' = Some (JBool False)
       \<and> (v2_intake e2 w1 req2 = (Next ctx2, w3) \<longrightarrow>
            fst (POST_v2 e2 w1 req2)
            = \<lparr>status = 400,
               body = JObject [(''success'', JBool False),
                               (''error'', JString ''VALIDATION_FAILED''),
                               (''message'', JString
                                  ''Application with this email already exists'')]\<rparr>)"
proof -
  have "find (\<lambda>a. app_emailAddress a = normalize_email m1) (applications (snd (first e1 w0 req1))) \<noteq> None"
    using assms(1)
  proof
    assume "first = POST_v1"
    with assms show ?thesis using POST_v1_accepted [of e1 validators new_id t req1 fd1 m1 w0] by simp
  next
    assume "first \<in> {POST_v2}"
    with assms show ?thesis using POST_v2_accepted [of e1 validators new_id t req1 fd1 m1 w0] by simp
  qed
  with assms have stored: "find (\<lambda>a. app_emailAddress a = normalize_email m2) (applications w1) \<noteq> None"
    by simp
  note v1 = POST_v1_duplicate [OF assms(3) assms(6) assms(7) stored]
  note v2 = POST_v2_duplicate [OF assms(3) assms(6) assms(7) stored]
  have r2: "createErrorResponse ''VALIDATION_FAILED''
             (Some ''Application with this email already exists'') None
       = \<lparr>status = 400,
               body = JObject [(''success'', JBool False),
                               (''error'', JString ''VALIDATION_FAILED''),
                               (''message'', JString
                                  ''Application with this email already exists'')]\<rparr>"
    by (simp add: createErrorResponse_def ErrorStatusCodes_def ErrorMessages_def or_default_def Let_def)
  from v1(1) v1(2) v1(3) [of ctx1 w2] v2(1) v2(2) v2(3) [of ctx2 w3] r2 show ?thesis
    by (simp add: failure_def json_response_def)
qed

theorem duplicate_email_rejected_witness:
  "normalize_email ''ada@example.com'' = normalize_email '' Ada@Example.COM ''
   \<and> status (fst (POST_v2 (sample_env sample_connect sample_uploader sample_create) sample_world
                    (sample_request ''ada@example.com''))) = 201
   \<and> applications (snd (POST_v1 (sample_env sample_connect sample_uploader sample_create)
        (snd (POST_v2 (sample_env sample_connect sample_uploader sample_create) sample_world
                (sample_request ''ada@example.com'')))
        (sample_request '' Ada@Example.COM '')))
     = applications (snd (POST_v2 (sample_env sample_connect sample_uploader sample_create)
                            sample_world (sample_request ''ada@example.com'')))
   \<and> status (fst (POST_v1 (sample_env sample_connect sample_uploader sample_create)
        (snd (POST_v2 (sample_env sample_connect sample_uploader sample_create) sample_world
                (sample_request ''ada@example.com'')))
        (sample_request '' Ada@Example.COM ''))) = 409
   \<and> applications (snd (POST_v2 (sample_env sample_connect sample_uploader sample_create)
        (snd (POST_v2 (sample_env sample_connect sample_uploader sample_create) sample_world
                (sample_request ''ada@example.com'')))
        (sample_request '' Ada@Example.COM '')))
     = applications (snd (POST_v2 (sample_env sample_connect sample_uploader sample_create)
                            sample_world (sample_request ''ada@example.com'')))
   \<and> status (fst (POST_v2 (sample_env sample_connect sample_uploader sample_create)
        (snd (POST_v2 (sample_env sample_connect sample_uploader sample_create) sample_world
                (sample_request ''ada@example.com'')))
        (sample_request '' Ada@Example.COM ''))) = 400"
proof -
  let ?e = "sample_env sample_connect sample_uploader sample_create"
  let ?r1 = "sample_request ''ada@example.com''"
  let ?r2 = "sample_request '' Ada@Example.COM ''"
  let ?w1 = "snd (POST_v2 ?e sample_world ?r1)"
  have n: "normalize_email ''ada@example.com'' = normalize_email '' Ada@Example.COM ''"
    by (simp add: sample_normalize)
  have s: "status (fst (POST_v2 ?e sample_world ?r1)) = 201" by (rule sample_first_submission)
  have c: "connectDB ?e ?w1 = (Inr (Connection 0), ?w1)"
    by (rule connectDB_cached) (rule sample_first_submission)
  have i2: "v2_intake ?e ?w1 ?r2 = (Next (sample_ctx '' Ada@Example.COM ''), ?w1)"
    by (rule sample_v2_intake [OF sample_email_not_url(2) c])
  obtain ctx1 where i1: "v1_intake ?e ?w1 ?r2 = (Next ctx1, ?w1)"
    using sample_v1_intake [OF c] by blast
  have sv: "save ?e = mongoose_save (\<lambda>d. []) sample_id ''2026-01-01T00:00:00.000Z''"
    and fo: "findOne ?e = mongoose_findOne"
    by (simp_all add: sample_env_def)
  have first: "POST_v2 ?e sample_world ?r1 = (fst (POST_v2 ?e sample_world ?r1), ?w1)" by simp
  note t = duplicate_email_rejected [of POST_v2 ?e "\<lambda>d. []" sample_id "''2026-01-01T00:00:00.000Z''"
      ?e ?r1 "sample_form ''ada@example.com''" "''ada@example.com''"
      ?r2 "sample_form '' Ada@Example.COM ''" "'' Ada@Example.COM ''"
      sample_world "fst (POST_v2 ?e sample_world ?r1)" ?w1 ctx1 ?w1
      "sample_ctx '' Ada@Example.COM ''" ?w1,
      OF _ sv fo sample_request_formData sample_form_get(3) sample_request_formData
         sample_form_get(3) n first s]
  from t i1 i2 n s show ?thesis by simp
qed

text \<open>
  The claim as stated fails: in the second pipeline the duplicate-email response has
  status 400, not 409.
\<close>

theorem duplicate_email_status_400:
  "normalize_email ''ada@example.com'' = normalize_email '' Ada@Example.COM ''
   \<and> status (fst (POST_v2 (sample_env sample_connect sample_uploader sample_create) sample_world
                    (sample_request ''ada@example.com''))) = 201
   \<and> status (fst (POST_v2 (sample_env sample_connect sample_uploader sample_create)
        (snd (POST_v2 (sample_env sample_connect sample_uploader sample_create) sample_world
                (sample_request ''ada@example.com'')))
        (sample_request '' Ada@Example.COM ''))) \<noteq> 409"
proof -
  let ?e = "sample_env sample_connect sample_uploader sample_create"
  let ?r1 = "sample_request ''ada@example.com''"
  let ?r2 = "sample_request '' Ada@Example.COM ''"
  let ?w1 = "snd (POST_v2 ?e sample_world ?r1)"
  have n: "normalize_email ''ada@example.com'' = normalize_email '' Ada@Example.COM ''"
    by (simp add: sample_normalize)
  have s: "status (fst (POST_v2 ?e sample_world ?r1)) = 201" by (rule sample_first_submission)
  have c: "connectDB ?e ?w1 = (Inr (Connection 0), ?w1)"
    by (rule connectDB_cached) (rule sample_first_submission)
  have i2: "v2_intake ?e ?w1 ?r2 = (Next (sample_ctx '' Ada@Example.COM ''), ?w1)"
    by (rule sample_v2_intake [OF sample_email_not_url(2) c])
  have sv: "save ?e = mongoose_save (\<lambda>d. []) sample_id ''2026-01-01T00:00:00.000Z''"
    and fo: "findOne ?e = mongoose_findOne"
    by (simp_all add: sample_env_def)
  have stored: "find (\<lambda>a. app_emailAddress a = normalize_email '' Ada@Example.COM '')
                  (applications ?w1) \<noteq> None"
    using POST_v2_accepted [OF sv sample_request_formData sample_form_get(3) s] n by simp
  have "fst (POST_v2 ?e ?w1 ?r2)
        = createErrorResponse ''VALIDATION_FAILED''
             (Some ''Application with this email already exists'') None"
    by (rule POST_v2_duplicate(3) [OF fo sample_request_formData sample_form_get(3) stored i2])
  then have "status (fst (POST_v2 ?e ?w1 ?r2)) = 400"
    by (simp add: createErrorResponse_def ErrorStatusCodes_def Let_def)
  with n s show ?thesis by simp
qed

end
